theory Spec2Isabelle
  imports Complex_Main
begin

section \<open>Numbers\<close>

text \<open>
  Every number of \<^verbatim>\<open>main.js\<close> is an IEEE-754 binary64 value, and every \<^verbatim>\<open>+\<close>, \<^verbatim>\<open>-\<close>
  and \<^verbatim>\<open>*\<close> of the program rounds its exact result to the nearest binary64 value, ties to
  the even significand. The model keeps numbers as reals and writes the rounding out:
  \<open>fl r\<close> is the binary64 value nearest to \<open>r\<close>. Subnormal spacing is modelled (the
  exponent is not taken below -1022); overflow to \<^verbatim>\<open>Infinity\<close> and \<^verbatim>\<open>NaN\<close> are not, so
  the model speaks about finite numbers only.
\<close>

type_synonym number = real

text \<open>\<open>halvings n a\<close>: how often \<open>a\<close> is halved until it is below 2, at most \<open>n\<close>
  times; \<open>doublings n a\<close>: how often \<open>a\<close> is doubled until it reaches 1.\<close>

fun halvings :: "nat \<Rightarrow> real \<Rightarrow> int" where
  "halvings 0 a = 0"
| "halvings (Suc n) a = (if a < 2 then 0 else 1 + halvings n (a / 2))"

fun doublings :: "nat \<Rightarrow> real \<Rightarrow> int" where
  "doublings 0 a = 0"
| "doublings (Suc n) a = (if 1 \<le> a then 0 else 1 + doublings n (2 * a))"

text \<open>The binary exponent of a positive number: \<open>2 ^ e \<le> a < 2 ^ (e + 1)\<close>, kept within
  the exponent range of binary64.\<close>

definition exponent :: "real \<Rightarrow> int" where
  "exponent a = (if 1 \<le> a then halvings 1023 a else - doublings 1022 a)"

definition pow2 :: "int \<Rightarrow> real" where
  "pow2 k = (if 0 \<le> k then 2 ^ nat k else 1 / 2 ^ nat (- k))"

text \<open>The distance between neighbouring binary64 values around \<open>a\<close> (53 significant bits).\<close>

definition ulp :: "real \<Rightarrow> real" where
  "ulp a = pow2 (exponent a - 52)"

definition roundTiesToEven :: "real \<Rightarrow> int" where
  "roundTiesToEven r =
     (let n = \<lfloor>r\<rfloor>; d = r - of_int n
      in if d < 1 / 2 then n else if 1 / 2 < d then n + 1 else if even n then n else n + 1)"

definition fl :: "real \<Rightarrow> number" where
  "fl r = (if r = 0 then 0
           else sgn r * of_int (roundTiesToEven (\<bar>r\<bar> / ulp \<bar>r\<bar>)) * ulp \<bar>r\<bar>)"

text \<open>The arithmetic operators of the program.\<close>

definition fadd :: "number \<Rightarrow> number \<Rightarrow> number" where
  "fadd a b = fl (a + b)"

definition fsub :: "number \<Rightarrow> number \<Rightarrow> number" where
  "fsub a b = fl (a - b)"

definition fmul :: "number \<Rightarrow> number \<Rightarrow> number" where
  "fmul a b = fl (a * b)"

text \<open>\<^verbatim>\<open>Math.PI\<close>: the binary64 value nearest to the circle constant,
  3.141592653589793115997963468544185161590576171875.\<close>

definition Math_PI :: number where
  "Math_PI = 884279719003555 / 2 ^ 48"

text \<open>Line 11: \<^verbatim>\<open>const gravity = -9.8, jumpSpeed = 5;\<close>. The literal \<^verbatim>\<open>-9.8\<close> denotes the
  binary64 value nearest to it.\<close>

definition gravity :: number where
  "gravity = fl (- 98 / 10)"

definition jumpSpeed :: number where
  "jumpSpeed = 5"


section \<open>Values of the three.js library\<close>

text \<open>
  \<^verbatim>\<open>THREE.Vector3\<close>, \<^verbatim>\<open>THREE.Box3\<close> and the part of \<^verbatim>\<open>THREE.Object3D\<close> the program
  touches. The library is imported by \<^verbatim>\<open>main.js\<close> (line 1); its code is not part of the
  repository. \<open>geometry\<close> stands for the object's mesh: the bounds from which the library
  computes the object's box in the world.
\<close>

record vec3 =
  x_of :: number
  y_of :: number
  z_of :: number

definition Vector3 :: "number \<Rightarrow> number \<Rightarrow> number \<Rightarrow> vec3" where
  "Vector3 a b c = \<lparr>x_of = a, y_of = b, z_of = c\<rparr>"

record box3 =
  min_of :: vec3
  max_of :: vec3

record object3d =
  position :: vec3
  rotation :: vec3
  scale :: vec3
  geometry :: box3

text \<open>\<^verbatim>\<open>Vector3.add\<close>, componentwise.\<close>

definition add_vec :: "vec3 \<Rightarrow> vec3 \<Rightarrow> vec3" where
  "add_vec a b = Vector3 (fadd (x_of a) (x_of b)) (fadd (y_of a) (y_of b)) (fadd (z_of a) (z_of b))"

text \<open>\<^verbatim>\<open>Box3.translate(offset)\<close>: adds the offset to both corners. The program applies it
  to a clone (line 235), so the box it was cloned from is not changed.\<close>

definition translate :: "box3 \<Rightarrow> vec3 \<Rightarrow> box3" where
  "translate b off = \<lparr>min_of = add_vec (min_of b) off, max_of = add_vec (max_of b) off\<rparr>"

text \<open>\<^verbatim>\<open>Box3.intersectsBox(box)\<close> of three.js: the two boxes overlap on each of the three
  axes (touching counts). In the words of the library's current releases:
  \<^verbatim>\<open>box.max.x >= this.min.x && box.min.x <= this.max.x && box.max.y >= this.min.y &&
  box.min.y <= this.max.y && box.max.z >= this.min.z && box.min.z <= this.max.z\<close>.\<close>

definition intersectsBox :: "box3 \<Rightarrow> box3 \<Rightarrow> bool" where
  "intersectsBox this box \<longleftrightarrow>
     x_of (max_of box) \<ge> x_of (min_of this) \<and> x_of (min_of box) \<le> x_of (max_of this) \<and>
     y_of (max_of box) \<ge> y_of (min_of this) \<and> y_of (min_of box) \<le> y_of (max_of this) \<and>
     z_of (max_of box) \<ge> z_of (min_of this) \<and> z_of (min_of box) \<le> z_of (max_of this)"

text \<open>
  \<^verbatim>\<open>new THREE.Box3().setFromObject(object)\<close> computes the world-space axis-aligned bounding
  box of an object from its mesh and its transform. The functions below take it as the
  parameter \<open>setFromObject\<close>, so every theorem holds for every such function.
  \<open>boxAt\<close> is the one used to run the model on concrete scenes: the local bounds moved to
  the object's position, which is what the library computes for an unrotated, unscaled mesh.
\<close>

definition boxAt :: "object3d \<Rightarrow> box3" where
  "boxAt obj = translate (geometry obj) (position obj)"

definition setY :: "number \<Rightarrow> object3d \<Rightarrow> object3d" where
  "setY v obj = obj\<lparr>position := (position obj)\<lparr>y_of := v\<rparr>\<rparr>"

definition setX :: "number \<Rightarrow> object3d \<Rightarrow> object3d" where
  "setX v obj = obj\<lparr>position := (position obj)\<lparr>x_of := v\<rparr>\<rparr>"

definition setRotationY :: "number \<Rightarrow> object3d \<Rightarrow> object3d" where
  "setRotationY v obj = obj\<lparr>rotation := (rotation obj)\<lparr>y_of := v\<rparr>\<rparr>"


section \<open>Program state\<close>

text \<open>
  The module-level variables of lines 6 to 16 that the character controller reads or
  writes. A variable that is \<^verbatim>\<open>undefined\<close> until an asset has loaded is an \<open>option\<close>.
  The three \<^verbatim>\<open>AnimationAction\<close> objects are told apart by \<open>action\<close>. The effect of
  \<^verbatim>\<open>action.play()\<close> and \<^verbatim>\<open>action.stop()\<close> on the animation mixer is recorded as the list of
  these calls, oldest first; a clip counts as playing while the mixer has it scheduled. \<open>keysPressed\<close> maps a key name to whether the program reads it
  as truthy (a key never pressed is \<^verbatim>\<open>undefined\<close>, which is falsy).
\<close>

datatype action = IdleAction | RunAction | JumpAction

datatype mixer_call = Play action | Stop action

record state =
  character :: "object3d option"
  mixer :: bool
  currentAction :: "action option"
  idleAction :: "action option"
  runAction :: "action option"
  jumpAction :: "action option"
  keysPressed :: "string \<Rightarrow> bool"
  isJumping :: bool
  velocity :: number
  ground :: object3d
  obstacles :: "object3d list"
  calls :: "mixer_call list"

text \<open>The actions the mixer has scheduled after a list of calls: \<^verbatim>\<open>play()\<close> schedules
  one, \<^verbatim>\<open>stop()\<close> removes it.\<close>

definition mixer_step :: "mixer_call \<Rightarrow> action set \<Rightarrow> action set" where
  "mixer_step c S = (case c of Play a \<Rightarrow> insert a S | Stop a \<Rightarrow> S - {a})"

definition playing :: "mixer_call list \<Rightarrow> action set" where
  "playing cs = fold mixer_step cs {}"

definition play :: "action \<Rightarrow> state \<Rightarrow> state" where
  "play a s = s\<lparr>calls := calls s @ [Play a]\<rparr>"

definition stop :: "action \<Rightarrow> state \<Rightarrow> state" where
  "stop a s = s\<lparr>calls := calls s @ [Stop a]\<rparr>"

text \<open>
  A function of the program either returns, or raises the \<^verbatim>\<open>TypeError\<close> of reading a
  property of \<^verbatim>\<open>undefined\<close>. Both carry the state: what was assigned before the error
  stays assigned.
\<close>

datatype error = TypeError

datatype outcome = Done state | Raised error state

fun state_of :: "outcome \<Rightarrow> state" where
  "state_of (Done s) = s"
| "state_of (Raised e s) = s"

fun raised :: "outcome \<Rightarrow> bool" where
  "raised (Done s) = False"
| "raised (Raised e s) = True"

fun and_then :: "outcome \<Rightarrow> (state \<Rightarrow> outcome) \<Rightarrow> outcome" where
  "and_then (Done s) f = f s"
| "and_then (Raised e s) f = Raised e s"


section \<open>Animation selection (lines 154 to 192)\<close>

text \<open>Lines 177 to 183. \<^verbatim>\<open>currentAction.stop()\<close> is guarded by \<^verbatim>\<open>if (currentAction)\<close>;
  \<^verbatim>\<open>action.play()\<close> is not guarded, and raises when \<^verbatim>\<open>action\<close> is \<^verbatim>\<open>undefined\<close>.\<close>

definition setAction :: "action option \<Rightarrow> state \<Rightarrow> outcome" where
  "setAction action s =
     (if currentAction s \<noteq> action then
        (let s1 = (case currentAction s of Some cur \<Rightarrow> stop cur s | None \<Rightarrow> s)
         in case action of
              None \<Rightarrow> Raised TypeError s1
            | Some a \<Rightarrow> Done ((play a s1)\<lparr>currentAction := Some a\<rparr>))
      else Done s)"

text \<open>Lines 166 to 174.\<close>

definition switchAnimation :: "state \<Rightarrow> outcome" where
  "switchAnimation s =
     (if character s \<noteq> None \<and> mixer s \<and> \<not> isJumping s then
        (if keysPressed s ''ArrowLeft'' \<or> keysPressed s ''ArrowRight''
         then setAction (runAction s) s
         else setAction (idleAction s) s)
      else Done s)"

text \<open>Lines 186 to 192.\<close>

definition initiateJump :: "state \<Rightarrow> outcome" where
  "initiateJump s =
     (let s1 = s\<lparr>isJumping := True, velocity := jumpSpeed\<rparr>
      in if currentAction s1 \<noteq> jumpAction s1 then setAction (jumpAction s1) s1 else Done s1)"

text \<open>Lines 155 to 163.\<close>

definition updateCharacterDirection :: "state \<Rightarrow> state" where
  "updateCharacterDirection s =
     (case character s of
        None \<Rightarrow> s
      | Some c \<Rightarrow>
          if keysPressed s ''ArrowLeft'' then s\<lparr>character := Some (setRotationY (fl (- Math_PI / 2)) c)\<rparr>
          else if keysPressed s ''ArrowRight'' then s\<lparr>character := Some (setRotationY (fl (Math_PI / 2)) c)\<rparr>
          else s)"

text \<open>Lines 129 to 142.\<close>

definition onKeyDown :: "string \<Rightarrow> state \<Rightarrow> outcome" where
  "onKeyDown key s =
     (let s1 = s\<lparr>keysPressed := (keysPressed s)(key := True)\<rparr>
      in and_then (if key = ''ArrowUp'' \<and> \<not> isJumping s1 then initiateJump s1 else Done s1)
           (\<lambda>s2. if key = ''ArrowLeft'' \<or> key = ''ArrowRight''
                 then and_then (switchAnimation s2) (\<lambda>s3. Done (updateCharacterDirection s3))
                 else Done s2))"

text \<open>Lines 145 to 152.\<close>

definition onKeyUp :: "string \<Rightarrow> state \<Rightarrow> outcome" where
  "onKeyUp key s =
     (let s1 = updateCharacterDirection (s\<lparr>keysPressed := (keysPressed s)(key := False)\<rparr>)
      in if \<not> keysPressed s1 ''ArrowLeft'' \<and> \<not> keysPressed s1 ''ArrowRight'' \<and> \<not> isJumping s1
         then setAction (idleAction s1) s1
         else Done s1)"


section \<open>Gravity and support (lines 195 to 227)\<close>

text \<open>
  Lines 202 to 212, the \<^verbatim>\<open>forEach\<close> over the obstacles. The loop carries
  \<^verbatim>\<open>isSupported\<close> and the character (whose \<^verbatim>\<open>position.y\<close> it assigns); \<^verbatim>\<open>characterBox\<close> was
  computed before the loop and \<^verbatim>\<open>velocity\<close> is not assigned in it. \<^verbatim>\<open>forEach\<close> visits
  every element: there is no way to leave it early.
\<close>

fun supportLoop ::
  "(object3d \<Rightarrow> box3) \<Rightarrow> box3 \<Rightarrow> number \<Rightarrow> number \<Rightarrow> object3d list \<Rightarrow> bool \<times> object3d
     \<Rightarrow> bool \<times> object3d" where
  "supportLoop setFromObject characterBox vel delta [] acc = acc"
| "supportLoop setFromObject characterBox vel delta (obstacle # rest) (isSupported, c) =
     (let obstacleBox = setFromObject obstacle
      in if intersectsBox characterBox obstacleBox \<and>
            fsub (y_of (min_of characterBox)) (fmul vel delta) \<ge> y_of (max_of obstacleBox) \<and>
            y_of (min_of characterBox) \<le> y_of (max_of obstacleBox)
         then supportLoop setFromObject characterBox vel delta rest
                (True, setY (y_of (max_of obstacleBox)) c)
         else supportLoop setFromObject characterBox vel delta rest (isSupported, c))"

text \<open>Lines 213 to 218, the check against the ground. It reads \<^verbatim>\<open>character.position.y\<close>
  as the loop left it.\<close>

definition groundCheck ::
  "(object3d \<Rightarrow> box3) \<Rightarrow> box3 \<Rightarrow> object3d \<Rightarrow> bool \<times> object3d \<Rightarrow> bool \<times> object3d" where
  "groundCheck setFromObject characterBox grnd acc =
     (let groundBox = setFromObject grnd
      in if y_of (min_of characterBox) \<le> y_of (max_of groundBox) \<and> y_of (position (snd acc)) \<le> 0
         then (True, setY 0 (snd acc))
         else acc)"

text \<open>Lines 198 to 218 together: the support decision for a loaded character.\<close>

definition findSupport :: "(object3d \<Rightarrow> box3) \<Rightarrow> number \<Rightarrow> state \<Rightarrow> object3d \<Rightarrow> bool \<times> object3d" where
  "findSupport setFromObject delta s c =
     (let characterBox = setFromObject c
      in groundCheck setFromObject characterBox (ground s)
           (supportLoop setFromObject characterBox (velocity s) delta (obstacles s) (False, c)))"

text \<open>Lines 195 to 227.\<close>

definition applyGravity :: "(object3d \<Rightarrow> box3) \<Rightarrow> number \<Rightarrow> state \<Rightarrow> outcome" where
  "applyGravity setFromObject delta s =
     (case character s of
        None \<Rightarrow> Done s
      | Some c \<Rightarrow>
          (case findSupport setFromObject delta s c of (isSupported, c1) \<Rightarrow>
             if \<not> isSupported then
               (let v = fadd (velocity s) (fmul gravity delta)
                in Done (s\<lparr>velocity := v,
                           character := Some (setY (fadd (y_of (position c1)) (fmul v delta)) c1)\<rparr>))
             else switchAnimation (s\<lparr>character := Some c1, isJumping := False, velocity := 0\<rparr>)))"


section \<open>Horizontal movement (lines 229 to 270)\<close>

text \<open>Lines 239 to 245: the \<^verbatim>\<open>for ... of\<close> loop, which returns at the first obstacle
  whose box the moved box intersects.\<close>

fun collisionLoop :: "(object3d \<Rightarrow> box3) \<Rightarrow> box3 \<Rightarrow> object3d list \<Rightarrow> bool" where
  "collisionLoop setFromObject nextCharacterBox [] = False"
| "collisionLoop setFromObject nextCharacterBox (obstacle # rest) =
     (if intersectsBox nextCharacterBox (setFromObject obstacle) then True
      else collisionLoop setFromObject nextCharacterBox rest)"

text \<open>Lines 229 to 246. The function assigns no variable and no field of the scene, so
  it is a function of the state to a truth value.\<close>

definition checkHorizontalCollision :: "(object3d \<Rightarrow> box3) \<Rightarrow> number \<Rightarrow> state \<Rightarrow> bool" where
  "checkHorizontalCollision setFromObject nextX s =
     (case character s of
        None \<Rightarrow> False
      | Some c \<Rightarrow>
          (let characterBox = setFromObject c;
               nextCharacterBox =
                 translate characterBox (Vector3 (fsub nextX (x_of (position c))) 0 0)
           in collisionLoop setFromObject nextCharacterBox (obstacles s)))"

text \<open>Lines 258 to 262 and 263 to 267. The argument
  \<^verbatim>\<open>character.position.x - 5 * delta\<close> is evaluated before \<^verbatim>\<open>checkHorizontalCollision\<close> is
  entered, so with no character it raises before the guard of line 230 is reached.\<close>

definition moveLeft :: "(object3d \<Rightarrow> box3) \<Rightarrow> number \<Rightarrow> state \<Rightarrow> outcome" where
  "moveLeft setFromObject delta s =
     (if keysPressed s ''ArrowLeft'' then
        (case character s of
           None \<Rightarrow> Raised TypeError s
         | Some c \<Rightarrow>
             if \<not> checkHorizontalCollision setFromObject (fsub (x_of (position c)) (fmul 5 delta)) s
             then Done (s\<lparr>character := Some (setX (fsub (x_of (position c)) (fmul 5 delta)) c)\<rparr>)
             else Done s)
      else Done s)"

definition moveRight :: "(object3d \<Rightarrow> box3) \<Rightarrow> number \<Rightarrow> state \<Rightarrow> outcome" where
  "moveRight setFromObject delta s =
     (if keysPressed s ''ArrowRight'' then
        (case character s of
           None \<Rightarrow> Raised TypeError s
         | Some c \<Rightarrow>
             if \<not> checkHorizontalCollision setFromObject (fadd (x_of (position c)) (fmul 5 delta)) s
             then Done (s\<lparr>character := Some (setX (fadd (x_of (position c)) (fmul 5 delta)) c)\<rparr>)
             else Done s)
      else Done s)"

text \<open>Lines 249 to 270, one frame. \<open>delta\<close> is what \<^verbatim>\<open>clock.getDelta()\<close> returned.
  \<^verbatim>\<open>mixer.update\<close> and \<^verbatim>\<open>renderer.render\<close> advance and draw the animation; they are
  taken to assign nothing of the state above (the clips move the bones of the figure, not
  the position or the rotation of the character object, and schedule no clip).
  \<^verbatim>\<open>requestAnimationFrame\<close> asks for the next frame before anything else, so a frame that
  raises is still followed by the next one.\<close>

definition animate :: "(object3d \<Rightarrow> box3) \<Rightarrow> number \<Rightarrow> state \<Rightarrow> outcome" where
  "animate setFromObject delta s =
     and_then (applyGravity setFromObject delta s)
       (\<lambda>s1. and_then (moveLeft setFromObject delta s1) (moveRight setFromObject delta))"


section \<open>Asset loading and the event loop\<close>

text \<open>Lines 77 to 88, the callback of the character's load. \<open>fbx\<close> is the loaded
  object.\<close>

definition loadModel_onLoad :: "object3d \<Rightarrow> state \<Rightarrow> state" where
  "loadModel_onLoad fbx s =
     s\<lparr>character :=
         Some (setRotationY (fl (Math_PI / 2))
                (fbx\<lparr>scale := Vector3 (fl (1 / 100)) (fl (1 / 100)) (fl (1 / 100)),
                      position := Vector3 0 0 0\<rparr>)),
       mixer := True\<rparr>"

text \<open>Lines 93 to 107, the callbacks of the three clips' loads.\<close>

definition idle_onLoad :: "state \<Rightarrow> state" where
  "idle_onLoad s = (play IdleAction (s\<lparr>idleAction := Some IdleAction\<rparr>))\<lparr>currentAction := Some IdleAction\<rparr>"

definition run_onLoad :: "state \<Rightarrow> state" where
  "run_onLoad s = s\<lparr>runAction := Some RunAction\<rparr>"

definition jump_onLoad :: "state \<Rightarrow> state" where
  "jump_onLoad s = s\<lparr>jumpAction := Some JumpAction\<rparr>"

text \<open>The state when \<^verbatim>\<open>init\<close> has run (lines 6 to 16, 45 and 50) and nothing has loaded.\<close>

definition initial :: "object3d \<Rightarrow> object3d list \<Rightarrow> state" where
  "initial grnd obs =
     \<lparr>character = None, mixer = False, currentAction = None, idleAction = None,
      runAction = None, jumpAction = None, keysPressed = (\<lambda>k. False), isJumping = False,
      velocity = 0, ground = grnd, obstacles = obs, calls = []\<rparr>"

text \<open>What the browser delivers after the character has loaded: key events, frames and
  the loads of the clips. An error raised by a handler ends that handler only; the next
  event finds the state as the handler left it.\<close>

datatype event = KeyDown string | KeyUp string | Frame number | IdleLoaded | RunLoaded | JumpLoaded

fun handle :: "(object3d \<Rightarrow> box3) \<Rightarrow> event \<Rightarrow> state \<Rightarrow> outcome" where
  "handle setFromObject (KeyDown k) s = onKeyDown k s"
| "handle setFromObject (KeyUp k) s = onKeyUp k s"
| "handle setFromObject (Frame delta) s = animate setFromObject delta s"
| "handle setFromObject IdleLoaded s = Done (idle_onLoad s)"
| "handle setFromObject RunLoaded s = Done (run_onLoad s)"
| "handle setFromObject JumpLoaded s = Done (jump_onLoad s)"

fun run :: "(object3d \<Rightarrow> box3) \<Rightarrow> event list \<Rightarrow> state \<Rightarrow> state" where
  "run setFromObject [] s = s"
| "run setFromObject (e # es) s = run setFromObject es (state_of (handle setFromObject e s))"


section \<open>The support condition in other words\<close>

text \<open>The obstacles of a list that pass the test of lines 204 to 208, in list order.\<close>

definition supporting ::
  "(object3d \<Rightarrow> box3) \<Rightarrow> box3 \<Rightarrow> number \<Rightarrow> number \<Rightarrow> object3d list \<Rightarrow> object3d list" where
  "supporting setFromObject characterBox vel delta obs =
     filter (\<lambda>obstacle.
        intersectsBox characterBox (setFromObject obstacle) \<and>
        fsub (y_of (min_of characterBox)) (fmul vel delta) \<ge> y_of (max_of (setFromObject obstacle)) \<and>
        y_of (min_of characterBox) \<le> y_of (max_of (setFromObject obstacle))) obs"

text \<open>The per-obstacle condition as the specification words it, with (a) an overlap on
  the X axis only.\<close>

definition specSupport :: "box3 \<Rightarrow> box3 \<Rightarrow> number \<Rightarrow> number \<Rightarrow> bool" where
  "specSupport characterBox obstacleBox vel delta \<longleftrightarrow>
     (x_of (max_of obstacleBox) \<ge> x_of (min_of characterBox) \<and>
      x_of (min_of obstacleBox) \<le> x_of (max_of characterBox)) \<and>
     fsub (y_of (min_of characterBox)) (fmul vel delta) \<ge> y_of (max_of obstacleBox) \<and>
     y_of (min_of characterBox) \<le> y_of (max_of obstacleBox)"

text \<open>Calling \<^verbatim>\<open>setAction\<close> with one loaded clip after the other.\<close>

fun setActions :: "action list \<Rightarrow> state \<Rightarrow> outcome" where
  "setActions [] s = Done s"
| "setActions (a # as) s = and_then (setAction (Some a) s) (setActions as)"


section \<open>Concrete scenes\<close>

text \<open>
  Objects on which the model is run. Their \<open>geometry\<close> is the extent of the object as it
  stands in the scene (scaled and turned), so that \<open>boxAt\<close> is its bounding box.
  \<open>obstacleAt\<close> is a mesh of \<^verbatim>\<open>createObstacles\<close> (\<^verbatim>\<open>BoxGeometry(2, 1, 1)\<close>, lines 112 to
  118), \<open>groundPlane\<close> the plane of \<^verbatim>\<open>createGround\<close> (100 by 10 at height 0, lines 54 to
  61), and \<open>figure\<close> a character 1 wide, 2 high and 1 deep with its origin at its feet.
  The plane is turned by \<^verbatim>\<open>-Math.PI / 2\<close> in binary64, which is not a quarter turn exactly:
  the library's box of it reaches from -5 * 2^-52 to 5 * 2^-52 in height. Of this box the
  program reads the top only.
\<close>

definition obstacleAt :: "number \<Rightarrow> number \<Rightarrow> object3d" where
  "obstacleAt px py =
     \<lparr>position = Vector3 px py 0, rotation = Vector3 0 0 0, scale = Vector3 1 1 1,
      geometry = \<lparr>min_of = Vector3 (- 1) (- 1 / 2) (- 1 / 2), max_of = Vector3 1 (1 / 2) (1 / 2)\<rparr>\<rparr>"

definition groundPlane :: object3d where
  "groundPlane =
     \<lparr>position = Vector3 0 0 0, rotation = Vector3 (fl (- Math_PI / 2)) 0 0, scale = Vector3 1 1 1,
      geometry = \<lparr>min_of = Vector3 (- 50) (- 5 / 2 ^ 52) (- 5), max_of = Vector3 50 (5 / 2 ^ 52) 5\<rparr>\<rparr>"

definition figure :: "number \<Rightarrow> number \<Rightarrow> object3d" where
  "figure px py =
     \<lparr>position = Vector3 px py 0, rotation = Vector3 0 (fl (Math_PI / 2)) 0,
      scale = Vector3 (fl (1 / 100)) (fl (1 / 100)) (fl (1 / 100)),
      geometry = \<lparr>min_of = Vector3 (- 1 / 2) 0 (- 1 / 2), max_of = Vector3 (1 / 2) 2 (1 / 2)\<rparr>\<rparr>"

text \<open>The five obstacles of \<^verbatim>\<open>createObstacles\<close>, at x = i * 5 - 10.\<close>

definition sceneObstacles :: "object3d list" where
  "sceneObstacles = [obstacleAt (- 10) 0, obstacleAt (- 5) 0, obstacleAt 0 0, obstacleAt 5 0, obstacleAt 10 0]"

text \<open>A state in which everything has loaded and the idle clip plays: the character
  \<open>c\<close> with vertical velocity \<open>v\<close> among the obstacles \<open>obs\<close>, no key held.\<close>

definition loaded :: "object3d \<Rightarrow> number \<Rightarrow> object3d list \<Rightarrow> state" where
  "loaded c v obs =
     \<lparr>character = Some c, mixer = True, currentAction = Some IdleAction,
      idleAction = Some IdleAction, runAction = Some RunAction, jumpAction = Some JumpAction,
      keysPressed = (\<lambda>k. False), isJumping = False, velocity = v, ground = groundPlane,
      obstacles = obs, calls = [Play IdleAction]\<rparr>"



text \<open>Everything has loaded, the run clip plays, the character stands on the ground at
  x = 3 and the right arrow key is held.\<close>

definition running :: state where
  "running =
     (loaded (figure 3 0) 0 sceneObstacles)
       \<lparr>keysPressed := (\<lambda>k. k = ''ArrowRight''), currentAction := Some RunAction,
        calls := [Play IdleAction, Stop IdleAction, Play RunAction]\<rparr>"


text \<open>The character has loaded and no clip has.\<close>

definition justLoaded :: state where
  "justLoaded = loadModel_onLoad (figure 0 0) (initial groundPlane sceneObstacles)"

text \<open>The character stands on the ground at x = 3 with the idle clip playing, the run clip
  has not loaded, and the right arrow key is held.\<close>

definition waitingForRun :: state where
  "waitingForRun =
     (loaded (figure 3 0) 0 sceneObstacles)\<lparr>runAction := None, keysPressed := (\<lambda>k. k = ''ArrowRight'')\<rparr>"

text \<open>A frame of 16 milliseconds: the number \<^verbatim>\<open>0.016\<close>.\<close>

definition frame16ms :: number where
  "frame16ms = fl (16 / 1000)"


section \<open>What the animation functions leave alone\<close>

text \<open>Two states that differ at most in the current clip and the calls on the mixer.\<close>

definition same_physics :: "state \<Rightarrow> state \<Rightarrow> bool" where
  "same_physics s' s \<longleftrightarrow>
     character s' = character s \<and> mixer s' = mixer s \<and> idleAction s' = idleAction s \<and>
     runAction s' = runAction s \<and> jumpAction s' = jumpAction s \<and>
     keysPressed s' = keysPressed s \<and> isJumping s' = isJumping s \<and> velocity s' = velocity s \<and>
     ground s' = ground s \<and> obstacles s' = obstacles s"


text \<open>All three clips have loaded, and the current clip and no other is scheduled.\<close>

definition steady :: "state \<Rightarrow> bool" where
  "steady s \<longleftrightarrow>
     idleAction s \<noteq> None \<and> runAction s \<noteq> None \<and> jumpAction s \<noteq> None \<and>
     (\<exists>a. currentAction s = Some a \<and> playing (calls s) = {a})"

text \<open>The character's \<^verbatim>\<open>position.z\<close>, when there is a character.\<close>

definition characterZ :: "state \<Rightarrow> number option" where
  "characterZ s = map_option (\<lambda>c. z_of (position c)) (character s)"


section \<open>Evaluating the arithmetic\<close>

lemma halvings_unfold:
  "halvings n a = (if n = 0 then 0 else if a < 2 then 0 else 1 + halvings (n - 1) (a / 2))"
  by (cases n) auto

lemma doublings_unfold:
  "doublings n a = (if n = 0 then 0 else if 1 \<le> a then 0 else 1 + doublings (n - 1) (2 * a))"
  by (cases n) auto

lemmas fl_eval =
  fl_def ulp_def exponent_def halvings_unfold doublings_unfold pow2_def roundTiesToEven_def
  Let_def fadd_def fsub_def fmul_def

lemma fl_0 [simp]: "fl 0 = 0"
  by (simp add: fl_def)


lemma half_pi_exact: "fl (Math_PI / 2) = Math_PI / 2" "fl (- (Math_PI / 2)) = - (Math_PI / 2)"
  by (simp_all add: Math_PI_def fl_eval)

text \<open>Sanity checks of the rounding: a tie goes to the even significand, and the
  literals 0.1 and 0.01 get their known binary64 values.\<close>

lemma fl_examples:
  "fl 1 = 1"
  "fl (1 + 1 / 2 ^ 53) = 1"
  "fl (1 + 3 / 2 ^ 53) = 1 + 1 / 2 ^ 51"
  "fl (1 / 10) = 3602879701896397 / 2 ^ 55"
  "fl (1 / 100) = 5764607523034235 / 2 ^ 59"
  "fl (2 ^ 53 + 1) = 2 ^ 53"
  "fl (2 ^ 53 - 1 / 2) = 2 ^ 53"
  "fl (1 / 3) = 6004799503160661 / 2 ^ 54"
  "fl (- 78 / 10) = - 8782019273372467 / 2 ^ 50"
  by (simp_all add: fl_eval)

text \<open>Below the normal range the spacing stays at 2^-1074: half of the least positive
  value rounds to zero, one and a half times it to twice it.\<close>

lemma fl_subnormal:
  "fl (1 / 2 ^ 1074) = 1 / 2 ^ 1074"
  "fl (1 / 2 ^ 1075) = 0"
  "fl (3 / 2 ^ 1075) = 1 / 2 ^ 1073"
  by (simp_all add: fl_eval)

text \<open>Rounding moves a number by at most half the distance between its binary64
  neighbours.\<close>

lemma pow2_pos: "0 < pow2 k"
  by (simp add: pow2_def)

lemma roundTiesToEven_error: "\<bar>of_int (roundTiesToEven r) - r\<bar> \<le> 1 / 2"
proof -
  have "0 \<le> r - of_int \<lfloor>r\<rfloor>" "r - of_int \<lfloor>r\<rfloor> < 1"
    by linarith+
  then show ?thesis
    by (auto simp: roundTiesToEven_def Let_def)
qed

lemma fl_error: "\<bar>fl r - r\<bar> \<le> ulp \<bar>r\<bar> / 2"
proof (cases "r = 0")
  case True
  then show ?thesis using pow2_pos [of "exponent 0 - 52"] by (simp add: fl_def ulp_def)
next
  case False
  define u where "u = ulp \<bar>r\<bar>"
  define k where "k = roundTiesToEven (\<bar>r\<bar> / u)"
  have u: "0 < u" by (simp add: u_def ulp_def pow2_pos)
  have "fl r - r = sgn r * (of_int k * u - \<bar>r\<bar>)"
    using False by (simp add: fl_def u_def k_def algebra_simps sgn_real_def)
  also have "of_int k * u - \<bar>r\<bar> = u * (of_int k - \<bar>r\<bar> / u)"
    using u by (simp add: algebra_simps)
  finally have "\<bar>fl r - r\<bar> = u * \<bar>of_int k - \<bar>r\<bar> / u\<bar>"
    using False u by (simp add: abs_mult sgn_real_def)
  also have "\<dots> \<le> u * (1 / 2)"
    using roundTiesToEven_error [of "\<bar>r\<bar> / u"] u unfolding k_def
    by (intro mult_left_mono) simp_all
  finally show ?thesis by (simp add: u_def)
qed


lemmas scene_eval =
  boxAt_def translate_def add_vec_def Vector3_def obstacleAt_def figure_def groundPlane_def
  intersectsBox_def setY_def setX_def

lemmas state_eval =
  loaded_def applyGravity_def findSupport_def groundCheck_def switchAnimation_def
  setAction_def play_def stop_def supporting_def


section \<open>Support detection\<close>

lemma setY_setY [simp]: "setY a (setY b c) = setY a c"
  by (simp add: setY_def)

lemma setY_same [simp]: "setY (y_of (position c)) c = c"
  by (simp add: setY_def)

lemma setY_position [simp]:
  "y_of (position (setY a c)) = a"
  "x_of (position (setY a c)) = x_of (position c)"
  "z_of (position (setY a c)) = z_of (position c)"
  by (simp_all add: setY_def)

text \<open>The flag the loop returns: set on entry, or set by some obstacle of the list.\<close>

lemma supportLoop_flag:
  "fst (supportLoop sfo cb v d obs (flag, c)) \<longleftrightarrow>
     flag \<or> (\<exists>obstacle \<in> set obs.
        intersectsBox cb (sfo obstacle) \<and>
        fsub (y_of (min_of cb)) (fmul v d) \<ge> y_of (max_of (sfo obstacle)) \<and>
        y_of (min_of cb) \<le> y_of (max_of (sfo obstacle)))"
  by (induction obs arbitrary: flag c) (auto simp: Let_def)

text \<open>The height the loop leaves: that of the last obstacle that passed the test.\<close>

lemma supportLoop_last:
  "supportLoop sfo cb v d obs (flag, c) =
     (flag \<or> supporting sfo cb v d obs \<noteq> [],
      if supporting sfo cb v d obs = [] then c
      else setY (y_of (max_of (sfo (last (supporting sfo cb v d obs))))) c)"
  by (induction obs arbitrary: flag c) (auto simp: Let_def supporting_def)

text \<open>
  C1, as the code has it. The obstacle loop of \<^verbatim>\<open>applyGravity\<close> grants support exactly
  when some obstacle of the list satisfies: (a) the character's box and the obstacle's box
  overlap on the X axis and on the Y axis and on the Z axis, (b) the character's bottom edge
  moved one tick back along the velocity, \<^verbatim>\<open>min.y - velocity * delta\<close>, is at or above the
  obstacle's top, and (c) the character's bottom edge is at or below the obstacle's top.
\<close>

theorem obstacle_support_condition:
  "fst (supportLoop setFromObject (setFromObject c) (velocity s) delta (obstacles s) (False, c)) \<longleftrightarrow>
     (\<exists>obstacle \<in> set (obstacles s).
        (x_of (max_of (setFromObject obstacle)) \<ge> x_of (min_of (setFromObject c)) \<and>
         x_of (min_of (setFromObject obstacle)) \<le> x_of (max_of (setFromObject c))) \<and>
        (y_of (max_of (setFromObject obstacle)) \<ge> y_of (min_of (setFromObject c)) \<and>
         y_of (min_of (setFromObject obstacle)) \<le> y_of (max_of (setFromObject c))) \<and>
        (z_of (max_of (setFromObject obstacle)) \<ge> z_of (min_of (setFromObject c)) \<and>
         z_of (min_of (setFromObject obstacle)) \<le> z_of (max_of (setFromObject c))) \<and>
        fsub (y_of (min_of (setFromObject c))) (fmul (velocity s) delta)
          \<ge> y_of (max_of (setFromObject obstacle)) \<and>
        y_of (min_of (setFromObject c)) \<le> y_of (max_of (setFromObject obstacle)))"
  unfolding supportLoop_flag intersectsBox_def by auto

text \<open>
  C1 as the specification states it fails. A character that has fallen below an obstacle
  (its box spans heights -8 to -6, the obstacle's -1/2 to 1/2), falling at 10 per second
  with a tick of one second: the boxes overlap on the X axis, the bottom edge moved back
  is at 2, above the obstacle's top, and the bottom edge is below that top; yet the loop
  grants no support, because the boxes do not overlap on the Y axis.
\<close>

theorem x_only_counterexample:
  "specSupport (boxAt (figure 0 (- 8))) (boxAt (obstacleAt 0 0)) (- 10) 1 \<and>
   \<not> fst (supportLoop boxAt (boxAt (figure 0 (- 8))) (- 10) 1 [obstacleAt 0 0] (False, figure 0 (- 8)))"
  by (simp add: specSupport_def scene_eval fl_eval)

text \<open>The theorem of C1 at a character resting on top of an obstacle.\<close>

theorem obstacle_support_condition_witness:
  "fst (supportLoop boxAt (boxAt (figure 0 (1 / 2))) 0 1 [obstacleAt 0 0] (False, figure 0 (1 / 2)))"
  using obstacle_support_condition
    [of boxAt "figure 0 (1 / 2)" "loaded (figure 0 (1 / 2)) 0 [obstacleAt 0 0]" 1]
  by (simp add: loaded_def scene_eval fl_eval)

text \<open>The support decision in one equation: the obstacles that pass the test, the
  height the last of them leaves, and the ground check on that height.\<close>

lemma findSupport_eq:
  "findSupport sfo d s c =
     (let m = supporting sfo (sfo c) (velocity s) d (obstacles s);
          y1 = (if m = [] then y_of (position c) else y_of (max_of (sfo (last m))));
          onGround = (y_of (min_of (sfo c)) \<le> y_of (max_of (sfo (ground s))) \<and> y1 \<le> 0)
      in (m \<noteq> [] \<or> onGround, setY (if onGround then 0 else y1) c))"
  by (simp add: findSupport_def groundCheck_def supportLoop_last Let_def)






section \<open>Animation selection\<close>

lemma setAction_Some:
  "setAction (Some a) s =
     (if currentAction s = Some a then Done s
      else Done (s\<lparr>calls := calls s @ (case currentAction s of None \<Rightarrow> [] | Some b \<Rightarrow> [Stop b]) @ [Play a],
                  currentAction := Some a\<rparr>))"
  by (simp add: setAction_def play_def stop_def split: option.splits)

lemma setAction_None:
  "setAction None s =
     (case currentAction s of None \<Rightarrow> Done s | Some cur \<Rightarrow> Raised TypeError (stop cur s))"
  by (simp add: setAction_def split: option.splits)

lemma same_physics_refl [simp]: "same_physics s s"
  by (simp add: same_physics_def)

lemma setAction_frame: "same_physics (state_of (setAction a s)) s"
  by (cases a) (auto simp: same_physics_def setAction_Some setAction_None stop_def split: option.splits)

lemma switchAnimation_frame: "same_physics (state_of (switchAnimation s)) s"
  by (simp add: switchAnimation_def setAction_frame)

lemma initiateJump_frame:
  "same_physics (state_of (initiateJump s)) (s\<lparr>isJumping := True, velocity := jumpSpeed\<rparr>)"
  by (simp add: initiateJump_def Let_def setAction_frame)


lemma setRotationY_position [simp]: "position (setRotationY a c) = position c"
  by (simp add: setRotationY_def)

lemma updateCharacterDirection_fields [simp]:
  "velocity (updateCharacterDirection s) = velocity s"
  "isJumping (updateCharacterDirection s) = isJumping s"
  "currentAction (updateCharacterDirection s) = currentAction s"
  "calls (updateCharacterDirection s) = calls s"
  "keysPressed (updateCharacterDirection s) = keysPressed s"
  by (simp_all add: updateCharacterDirection_def split: option.splits)



text \<open>When the flag is false, the same key-down does start a jump, also when the jump clip
  cannot be played.\<close>

lemma jump_starts:
  assumes "\<not> isJumping s"
  shows "velocity (state_of (onKeyDown ''ArrowUp'' s)) = jumpSpeed \<and>
         isJumping (state_of (onKeyDown ''ArrowUp'' s))"
proof -
  have "state_of (and_then m Done) = state_of m" for m
    by (cases m) simp_all
  then show ?thesis
    using assms initiateJump_frame [of "s\<lparr>keysPressed := (keysPressed s)(''ArrowUp'' := True)\<rparr>"]
    by (simp add: onKeyDown_def same_physics_def)
qed

text \<open>A frame before the character has loaded: with no arrow key held nothing happens,
  with one held the frame raises.\<close>

lemma applyGravity_unloaded: "character s = None \<Longrightarrow> applyGravity sfo delta s = Done s"
  by (simp add: applyGravity_def)

lemma animate_unloaded:
  "character s = None \<Longrightarrow>
   animate sfo delta s =
     (if keysPressed s ''ArrowLeft'' \<or> keysPressed s ''ArrowRight'' then Raised TypeError s else Done s)"
  by (simp add: animate_def applyGravity_unloaded moveLeft_def moveRight_def)

text \<open>
  C4 fails on the code. Nothing has loaded and ArrowLeft has been pressed (or ArrowRight):
  the next frame raises a \<^verbatim>\<open>TypeError\<close>, at \<^verbatim>\<open>character.position.x\<close> in line 259 (or 264).
\<close>

theorem animate_raises_before_load:
  "animate boxAt (1 / 64) (state_of (onKeyDown ''ArrowLeft'' (initial groundPlane sceneObstacles)))
     = Raised TypeError (state_of (onKeyDown ''ArrowLeft'' (initial groundPlane sceneObstacles))) \<and>
   raised (animate boxAt (1 / 64) (state_of (onKeyDown ''ArrowRight'' (initial groundPlane sceneObstacles))))"
  by (simp add: animate_unloaded onKeyDown_def initial_def switchAnimation_def
      updateCharacterDirection_def)

text \<open>
  C5 fails on the code. The character and the idle clip have loaded, the run clip has not,
  and ArrowRight is pressed: \<^verbatim>\<open>setAction(runAction)\<close> stops the idle clip and then raises
  a \<^verbatim>\<open>TypeError\<close> at \<^verbatim>\<open>action.play()\<close>, leaving no clip scheduled.
\<close>

theorem setAction_raises_on_unloaded_clip:
  "runAction (idle_onLoad (loadModel_onLoad (figure 0 0) (initial groundPlane sceneObstacles))) = None \<and>
   setAction None (idle_onLoad (loadModel_onLoad (figure 0 0) (initial groundPlane sceneObstacles)))
     = Raised TypeError (stop IdleAction (idle_onLoad (loadModel_onLoad (figure 0 0) (initial groundPlane sceneObstacles)))) \<and>
   raised (onKeyDown ''ArrowRight'' (idle_onLoad (loadModel_onLoad (figure 0 0) (initial groundPlane sceneObstacles)))) \<and>
   calls (state_of (onKeyDown ''ArrowRight'' (idle_onLoad (loadModel_onLoad (figure 0 0) (initial groundPlane sceneObstacles)))))
     = [Play IdleAction, Stop IdleAction] \<and>
   playing (calls (state_of (onKeyDown ''ArrowRight'' (idle_onLoad (loadModel_onLoad (figure 0 0) (initial groundPlane sceneObstacles)))))) = {}"
  by (simp add: setAction_None onKeyDown_def switchAnimation_def idle_onLoad_def
      loadModel_onLoad_def initial_def play_def stop_def playing_def mixer_step_def)

lemma playing_snoc: "playing (cs @ [c]) = mixer_step c (playing cs)"
  by (simp add: playing_def)

lemma setAction_exclusive:
  assumes "playing (calls s) = set_option (currentAction s)"
  shows "\<exists>s'. setAction (Some a) s = Done s' \<and> playing (calls s') = {a} \<and> currentAction s' = Some a"
  using assms
  by (cases "currentAction s")
     (auto simp: setAction_Some playing_snoc mixer_step_def playing_def)

lemma setActions_exclusive:
  assumes "playing (calls s) = set_option (currentAction s)" and "as \<noteq> []"
  shows "\<exists>s'. setActions as s = Done s' \<and> playing (calls s') = {last as} \<and> currentAction s' = Some (last as)"
  using assms
proof (induction as arbitrary: s)
  case Nil
  then show ?case by simp
next
  case (Cons a as)
  from setAction_exclusive [OF Cons.prems(1), of a]
  obtain s1 where s1: "setAction (Some a) s = Done s1" "playing (calls s1) = {a}" "currentAction s1 = Some a"
    by blast
  show ?case
  proof (cases "as = []")
    case True
    with s1 show ?thesis by simp
  next
    case False
    have "playing (calls s1) = set_option (currentAction s1)"
      using s1 by simp
    from Cons.IH [OF this False] s1 False show ?thesis by simp
  qed
qed

text \<open>Once all clips have loaded and one plays, every key event, frame and later load
  keeps it so: \<open>steady\<close> is an invariant of the event loop.\<close>

lemma steady_loaded:
  "steady s \<Longrightarrow> idleAction s \<noteq> None \<and> runAction s \<noteq> None \<and> jumpAction s \<noteq> None"
  by (simp add: steady_def)

lemma setAction_steady:
  assumes "steady s" and "action \<noteq> None"
  shows "steady (state_of (setAction action s)) \<and> \<not> raised (setAction action s)"
proof -
  from assms obtain a where a: "action = Some a" by auto
  from assms(1) obtain b where "currentAction s = Some b" "playing (calls s) = {b}"
    unfolding steady_def by blast
  then have "playing (calls s) = set_option (currentAction s)"
    by simp
  from setAction_exclusive [OF this, of a]
  obtain s' where s': "setAction (Some a) s = Done s'" "playing (calls s') = {a}" "currentAction s' = Some a"
    by blast
  from setAction_frame [of "Some a" s] s'(1)
  have "idleAction s' = idleAction s" "runAction s' = runAction s" "jumpAction s' = jumpAction s"
    by (simp_all add: same_physics_def)
  with s' steady_loaded [OF assms(1)] have "steady s'"
    by (simp add: steady_def)
  with s'(1) a show ?thesis by simp
qed

lemma switchAnimation_steady:
  assumes "steady s"
  shows "steady (state_of (switchAnimation s)) \<and> \<not> raised (switchAnimation s)"
  using assms steady_loaded [OF assms]
  by (simp add: switchAnimation_def setAction_steady)

lemma steady_update [simp]:
  "steady (s\<lparr>keysPressed := k\<rparr>) = steady s"
  "steady (s\<lparr>isJumping := j\<rparr>) = steady s"
  "steady (s\<lparr>velocity := v\<rparr>) = steady s"
  "steady (s\<lparr>character := c\<rparr>) = steady s"
  by (simp_all add: steady_def)

lemma initiateJump_steady:
  assumes "steady s"
  shows "steady (state_of (initiateJump s)) \<and> \<not> raised (initiateJump s)"
proof -
  have st: "steady (s\<lparr>isJumping := True, velocity := jumpSpeed\<rparr>)"
    using assms by simp
  have "jumpAction (s\<lparr>isJumping := True, velocity := jumpSpeed\<rparr>) \<noteq> None"
    using steady_loaded [OF assms] by simp
  from setAction_steady [OF st this] st show ?thesis
    by (simp add: initiateJump_def Let_def)
qed

lemma updateCharacterDirection_steady [simp]: "steady (updateCharacterDirection s) = steady s"
  by (simp add: updateCharacterDirection_def split: option.splits)


lemma and_then_steady:
  assumes "steady (state_of m)" and "\<And>s1. steady s1 \<Longrightarrow> steady (state_of (f s1))"
  shows "steady (state_of (and_then m f))"
  using assms by (cases m) simp_all

lemma onKeyDown_steady:
  assumes "steady s"
  shows "steady (state_of (onKeyDown key s))"
  unfolding onKeyDown_def Let_def
proof (rule and_then_steady)
  show "steady (state_of (if key = ''ArrowUp'' \<and> \<not> isJumping (s\<lparr>keysPressed := (keysPressed s)(key := True)\<rparr>)
           then initiateJump (s\<lparr>keysPressed := (keysPressed s)(key := True)\<rparr>)
           else Done (s\<lparr>keysPressed := (keysPressed s)(key := True)\<rparr>)))"
    using assms by (simp add: initiateJump_steady)
next
  fix s2 assume s2: "steady s2"
  have "steady (state_of (and_then (switchAnimation s2) (\<lambda>s3. Done (updateCharacterDirection s3))))"
    by (rule and_then_steady) (simp_all add: s2 switchAnimation_steady)
  then show "steady (state_of (if key = ''ArrowLeft'' \<or> key = ''ArrowRight''
           then and_then (switchAnimation s2) (\<lambda>s3. Done (updateCharacterDirection s3))
           else Done s2))"
    using s2 by simp
qed

lemma onKeyUp_steady:
  assumes "steady s"
  shows "steady (state_of (onKeyUp key s))"
proof -
  let ?s1 = "updateCharacterDirection (s\<lparr>keysPressed := (keysPressed s)(key := False)\<rparr>)"
  have st: "steady ?s1" using assms by simp
  from setAction_steady [OF st, of "idleAction ?s1"] steady_loaded [OF st] st
  show ?thesis by (simp add: onKeyUp_def Let_def)
qed

lemma applyGravity_steady:
  assumes "steady s"
  shows "steady (state_of (applyGravity sfo d s))"
proof (cases "character s")
  case None
  with assms show ?thesis by (simp add: applyGravity_def)
next
  case (Some c)
  obtain b c1 where f: "findSupport sfo d s c = (b, c1)"
    by (cases "findSupport sfo d s c")
  have "steady (s\<lparr>character := Some c1, isJumping := False, velocity := 0\<rparr>)"
    using assms by simp
  from switchAnimation_steady [OF this] assms Some f show ?thesis
    by (simp add: applyGravity_def Let_def)
qed

lemma moveLeft_steady: "steady s \<Longrightarrow> steady (state_of (moveLeft sfo d s))"
  by (simp add: moveLeft_def split: option.splits)

lemma moveRight_steady: "steady s \<Longrightarrow> steady (state_of (moveRight sfo d s))"
  by (simp add: moveRight_def split: option.splits)

lemma animate_steady:
  assumes "steady s"
  shows "steady (state_of (animate sfo d s))"
  unfolding animate_def
  by (intro and_then_steady applyGravity_steady moveLeft_steady moveRight_steady assms)

lemma loads_steady: "steady s \<Longrightarrow> steady (run_onLoad s)" "steady s \<Longrightarrow> steady (jump_onLoad s)"
  by (simp_all add: steady_def run_onLoad_def jump_onLoad_def)

lemma handle_steady:
  assumes "steady s" and "e \<noteq> IdleLoaded"
  shows "steady (state_of (handle sfo e s))"
  using assms
  by (cases e) (simp_all add: onKeyDown_steady onKeyUp_steady animate_steady loads_steady)

lemma run_steady:
  assumes "steady s" and "IdleLoaded \<notin> set evs"
  shows "steady (run sfo evs s)"
  using assms
proof (induction evs arbitrary: s)
  case Nil
  then show ?case by simp
next
  case (Cons e evs)
  from Cons.prems have "e \<noteq> IdleLoaded" "IdleLoaded \<notin> set evs"
    by auto
  with Cons.IH [OF handle_steady [OF Cons.prems(1) this(1)]] show ?case
    by simp
qed

lemma steady_one:
  "steady s \<Longrightarrow> \<exists>a. currentAction s = Some a \<and> playing (calls s) = {a}"
  by (simp add: steady_def)

text \<open>
  What \<^verbatim>\<open>setAction\<close> does by itself. With the current clip it returns the state as it
  was: no call on the mixer. With a loaded clip other than the current one it stops the
  current clip, then plays the requested one, and makes it current. So, from a state in
  which the current clip and no other is scheduled, after one or more calls of
  \<^verbatim>\<open>setAction\<close> with loaded clips exactly one clip is scheduled, and when all three clips
  have loaded this stays so after any sequence of key events and frames.
\<close>

theorem setAction_exclusive_playback:
  "(currentAction s = Some a \<longrightarrow> setAction (Some a) s = Done s) \<and>
   (currentAction s = Some b \<and> a \<noteq> b \<longrightarrow>
      setAction (Some a) s = Done (s\<lparr>calls := calls s @ [Stop b, Play a], currentAction := Some a\<rparr>)) \<and>
   (currentAction s = None \<longrightarrow>
      setAction (Some a) s = Done (s\<lparr>calls := calls s @ [Play a], currentAction := Some a\<rparr>)) \<and>
   (playing (calls s) = set_option (currentAction s) \<and> as \<noteq> [] \<longrightarrow>
      (\<exists>s'. setActions as s = Done s' \<and> playing (calls s') = {last as} \<and>
            currentAction s' = Some (last as))) \<and>
   (steady s \<and> IdleLoaded \<notin> set evs \<longrightarrow>
      (\<exists>a'. currentAction (run setFromObject evs s) = Some a' \<and>
            playing (calls (run setFromObject evs s)) = {a'}))"
  using setActions_exclusive [of s as] steady_one [OF run_steady, of s evs setFromObject]
  by (auto simp: setAction_Some)

text \<open>The same at the state in which the idle clip plays.\<close>

theorem setAction_exclusive_playback_witness:
  "currentAction (loaded (figure 0 0) 0 sceneObstacles) = Some IdleAction \<and>
   playing (calls (loaded (figure 0 0) 0 sceneObstacles)) = {IdleAction} \<and>
   setAction (Some IdleAction) (loaded (figure 0 0) 0 sceneObstacles) = Done (loaded (figure 0 0) 0 sceneObstacles) \<and>
   setAction (Some RunAction) (loaded (figure 0 0) 0 sceneObstacles)
     = Done ((loaded (figure 0 0) 0 sceneObstacles)
              \<lparr>calls := [Play IdleAction, Stop IdleAction, Play RunAction], currentAction := Some RunAction\<rparr>) \<and>
   (\<exists>s'. setActions [RunAction, RunAction, JumpAction, IdleAction, RunAction] (loaded (figure 0 0) 0 sceneObstacles) = Done s' \<and>
         playing (calls s') = {RunAction} \<and> currentAction s' = Some RunAction) \<and>
   steady (loaded (figure 0 0) 0 sceneObstacles) \<and>
   (\<exists>a'. currentAction (run boxAt [KeyDown ''ArrowRight'', Frame (1 / 16), KeyDown ''ArrowUp'', Frame (1 / 16),
                                    KeyUp ''ArrowRight''] (loaded (figure 0 0) 0 sceneObstacles)) = Some a' \<and>
         playing (calls (run boxAt [KeyDown ''ArrowRight'', Frame (1 / 16), KeyDown ''ArrowUp'', Frame (1 / 16),
                                    KeyUp ''ArrowRight''] (loaded (figure 0 0) 0 sceneObstacles))) = {a'})"
  using setAction_exclusive_playback
          [of "loaded (figure 0 0) 0 sceneObstacles" IdleAction IdleAction
              "[RunAction, RunAction, JumpAction, IdleAction, RunAction]"
              "[KeyDown ''ArrowRight'', Frame (1 / 16), KeyDown ''ArrowUp'', Frame (1 / 16), KeyUp ''ArrowRight'']"
              boxAt]
        setAction_exclusive_playback
          [of "loaded (figure 0 0) 0 sceneObstacles" RunAction IdleAction "[RunAction]" "[]" boxAt]
  by (simp add: loaded_def playing_def mixer_step_def steady_def)

lemma Math_PI_pos: "0 < Math_PI"
  by (simp add: Math_PI_def)

lemma figure_rotation: "y_of (rotation (figure px py)) = Math_PI / 2"
  by (simp add: figure_def Vector3_def half_pi_exact)

lemma setRotationY_fields [simp]:
  "y_of (rotation (setRotationY a c)) = a"
  "x_of (rotation (setRotationY a c)) = x_of (rotation c)"
  "z_of (rotation (setRotationY a c)) = z_of (rotation c)"
  "scale (setRotationY a c) = scale c"
  "geometry (setRotationY a c) = geometry c"
  by (simp_all add: setRotationY_def)

text \<open>
  C10. With a loaded character, \<^verbatim>\<open>updateCharacterDirection\<close> leaves the character with
  \<^verbatim>\<open>rotation.y\<close> equal to \<^verbatim>\<open>-Math.PI / 2\<close> whenever ArrowLeft is held, also when ArrowRight
  is held with it; \<^verbatim>\<open>rotation.y\<close> becomes \<^verbatim>\<open>Math.PI / 2\<close> only when ArrowRight is held and
  ArrowLeft is not; with neither held nothing changes. Nothing but \<^verbatim>\<open>rotation.y\<close> is
  assigned. The first angle is negative and the second positive.
\<close>

theorem left_takes_priority:
  assumes "character s = Some c"
  shows "(keysPressed s ''ArrowLeft'' \<longrightarrow>
            (\<exists>c'. updateCharacterDirection s = s\<lparr>character := Some c'\<rparr> \<and>
                  y_of (rotation c') = - (Math_PI / 2) \<and>
                  x_of (rotation c') = x_of (rotation c) \<and> z_of (rotation c') = z_of (rotation c) \<and>
                  position c' = position c \<and> scale c' = scale c \<and> geometry c' = geometry c)) \<and>
         (\<not> keysPressed s ''ArrowLeft'' \<and> keysPressed s ''ArrowRight'' \<longrightarrow>
            (\<exists>c'. updateCharacterDirection s = s\<lparr>character := Some c'\<rparr> \<and>
                  y_of (rotation c') = Math_PI / 2 \<and>
                  x_of (rotation c') = x_of (rotation c) \<and> z_of (rotation c') = z_of (rotation c) \<and>
                  position c' = position c \<and> scale c' = scale c \<and> geometry c' = geometry c)) \<and>
         (\<not> keysPressed s ''ArrowLeft'' \<and> \<not> keysPressed s ''ArrowRight'' \<longrightarrow>
            updateCharacterDirection s = s) \<and>
         - (Math_PI / 2) < 0 \<and> 0 < Math_PI / 2"
proof (intro conjI impI)
  assume "keysPressed s ''ArrowLeft''"
  with assms have "updateCharacterDirection s = s\<lparr>character := Some (setRotationY (- (Math_PI / 2)) c)\<rparr>"
    by (simp add: updateCharacterDirection_def half_pi_exact)
  then show "\<exists>c'. updateCharacterDirection s = s\<lparr>character := Some c'\<rparr> \<and>
                  y_of (rotation c') = - (Math_PI / 2) \<and>
                  x_of (rotation c') = x_of (rotation c) \<and> z_of (rotation c') = z_of (rotation c) \<and>
                  position c' = position c \<and> scale c' = scale c \<and> geometry c' = geometry c"
    by (intro exI [of _ "setRotationY (- (Math_PI / 2)) c"]) simp
next
  assume "\<not> keysPressed s ''ArrowLeft'' \<and> keysPressed s ''ArrowRight''"
  with assms have "updateCharacterDirection s = s\<lparr>character := Some (setRotationY (Math_PI / 2) c)\<rparr>"
    by (simp add: updateCharacterDirection_def half_pi_exact)
  then show "\<exists>c'. updateCharacterDirection s = s\<lparr>character := Some c'\<rparr> \<and>
                  y_of (rotation c') = Math_PI / 2 \<and>
                  x_of (rotation c') = x_of (rotation c) \<and> z_of (rotation c') = z_of (rotation c) \<and>
                  position c' = position c \<and> scale c' = scale c \<and> geometry c' = geometry c"
    by (intro exI [of _ "setRotationY (Math_PI / 2) c"]) simp
next
  assume "\<not> keysPressed s ''ArrowLeft'' \<and> \<not> keysPressed s ''ArrowRight''"
  with assms show "updateCharacterDirection s = s"
    by (simp add: updateCharacterDirection_def)
next
  show "- (Math_PI / 2) < 0" "0 < Math_PI / 2"
    using Math_PI_pos by simp_all
qed

text \<open>C10 with both arrow keys held, on a character that faced right: \<^verbatim>\<open>rotation.y\<close> goes
  from 884279719003555 / 2^49 to its negative.\<close>

theorem left_takes_priority_witness:
  "character ((loaded (figure 0 0) 0 sceneObstacles)\<lparr>keysPressed := (\<lambda>k. k = ''ArrowLeft'' \<or> k = ''ArrowRight'')\<rparr>)
     = Some (figure 0 0) \<and>
   y_of (rotation (figure 0 0)) = 884279719003555 / 2 ^ 49 \<and>
   map_option (\<lambda>c. y_of (rotation c))
     (character (updateCharacterDirection
       ((loaded (figure 0 0) 0 sceneObstacles)\<lparr>keysPressed := (\<lambda>k. k = ''ArrowLeft'' \<or> k = ''ArrowRight'')\<rparr>)))
     = Some (- (884279719003555 / 2 ^ 49))"
proof -
  let ?s = "(loaded (figure 0 0) 0 sceneObstacles)\<lparr>keysPressed := (\<lambda>k. k = ''ArrowLeft'' \<or> k = ''ArrowRight'')\<rparr>"
  have c: "character ?s = Some (figure 0 0)" by (simp add: loaded_def)
  have k: "keysPressed ?s ''ArrowLeft''" by simp
  from left_takes_priority [OF c] k
  obtain c' where "updateCharacterDirection ?s = ?s\<lparr>character := Some c'\<rparr>"
    "y_of (rotation c') = - (Math_PI / 2)"
    by blast
  then have "map_option (\<lambda>c. y_of (rotation c)) (character (updateCharacterDirection ?s))
      = Some (- (Math_PI / 2))"
    by simp
  moreover have "map_option (\<lambda>c. y_of (rotation c)) (character (updateCharacterDirection ?s))
      = Some (- (884279719003555 / 2 ^ 49))"
    by (simp add: updateCharacterDirection_def loaded_def setRotationY_def Math_PI_def fl_eval)
  moreover have "y_of (rotation (figure 0 0)) = 884279719003555 / 2 ^ 49"
    by (simp add: figure_def Vector3_def Math_PI_def fl_eval)
  ultimately show ?thesis using c by blast
qed


section \<open>Free fall\<close>












section \<open>The z coordinate\<close>

lemma state_of_and_then:
  "state_of (and_then m f) = (case m of Done s \<Rightarrow> state_of (f s) | Raised e s \<Rightarrow> s)"
  by (cases m) simp_all

lemma and_then_keeps:
  assumes "g (state_of m) = g s" and "\<And>s1. g (state_of (f s1)) = g s1"
  shows "g (state_of (and_then m f)) = g s"
  using assms by (cases m) simp_all


lemma characterZ_update [simp]:
  "characterZ (s\<lparr>keysPressed := k\<rparr>) = characterZ s"
  "characterZ (s\<lparr>isJumping := j\<rparr>) = characterZ s"
  "characterZ (s\<lparr>velocity := v\<rparr>) = characterZ s"
  "characterZ (s\<lparr>currentAction := a\<rparr>) = characterZ s"
  "characterZ (s\<lparr>calls := cs\<rparr>) = characterZ s"
  "characterZ (s\<lparr>idleAction := a\<rparr>) = characterZ s"
  "characterZ (s\<lparr>runAction := a\<rparr>) = characterZ s"
  "characterZ (s\<lparr>jumpAction := a\<rparr>) = characterZ s"
  "characterZ (s\<lparr>character := Some c\<rparr>) = Some (z_of (position c))"
  by (simp_all add: characterZ_def)

lemma setAction_z: "characterZ (state_of (setAction a s)) = characterZ s"
  using setAction_frame [of a s] by (simp add: same_physics_def characterZ_def)

lemma switchAnimation_z: "characterZ (state_of (switchAnimation s)) = characterZ s"
  using switchAnimation_frame [of s] by (simp add: same_physics_def characterZ_def)

lemma initiateJump_z: "characterZ (state_of (initiateJump s)) = characterZ s"
  using initiateJump_frame [of s] by (simp add: same_physics_def characterZ_def)

lemma updateCharacterDirection_z: "characterZ (updateCharacterDirection s) = characterZ s"
  by (simp add: updateCharacterDirection_def characterZ_def split: option.splits)

lemma onKeyDown_z: "characterZ (state_of (onKeyDown key s)) = characterZ s"
  unfolding onKeyDown_def Let_def
  by (rule and_then_keeps)
     (auto simp: initiateJump_z switchAnimation_z updateCharacterDirection_z
           intro!: and_then_keeps [where g = characterZ])

lemma onKeyUp_z: "characterZ (state_of (onKeyUp key s)) = characterZ s"
  by (simp add: onKeyUp_def Let_def setAction_z updateCharacterDirection_z)

lemma supportLoop_z:
  "z_of (position (snd (supportLoop sfo cb v d obs (flag, c)))) = z_of (position c)"
  by (simp add: supportLoop_last)

lemma findSupport_z: "z_of (position (snd (findSupport sfo d s c))) = z_of (position c)"
  by (simp add: findSupport_eq Let_def)

lemma applyGravity_z: "characterZ (state_of (applyGravity sfo d s)) = characterZ s"
proof (cases "character s")
  case None
  then show ?thesis by (simp add: applyGravity_def)
next
  case (Some c)
  obtain b c1 where f: "findSupport sfo d s c = (b, c1)"
    by (cases "findSupport sfo d s c")
  with findSupport_z [of sfo d s c] have z: "z_of (position c1) = z_of (position c)"
    by simp
  have "characterZ s = Some (z_of (position c))"
    using Some by (simp add: characterZ_def)
  then show ?thesis
    using Some f z by (simp add: applyGravity_def Let_def switchAnimation_z)
qed

lemma setX_position [simp]:
  "x_of (position (setX a c)) = a"
  "y_of (position (setX a c)) = y_of (position c)"
  "z_of (position (setX a c)) = z_of (position c)"
  by (simp_all add: setX_def)

lemma moveLeft_z: "characterZ (state_of (moveLeft sfo d s)) = characterZ s"
  by (simp add: moveLeft_def characterZ_def split: option.splits)

lemma moveRight_z: "characterZ (state_of (moveRight sfo d s)) = characterZ s"
  by (simp add: moveRight_def characterZ_def split: option.splits)

lemma animate_z: "characterZ (state_of (animate sfo d s)) = characterZ s"
  unfolding animate_def
  by (intro and_then_keeps [where g = characterZ] applyGravity_z moveLeft_z moveRight_z)

lemma handle_z: "characterZ (state_of (handle sfo e s)) = characterZ s"
  by (cases e)
     (simp_all add: onKeyDown_z onKeyUp_z animate_z idle_onLoad_def run_onLoad_def
        jump_onLoad_def play_def)

lemma run_z: "characterZ (run sfo evs s) = characterZ s"
  by (induction evs arbitrary: s) (simp_all add: handle_z)

lemma loadModel_z: "characterZ (loadModel_onLoad fbx s) = Some 0"
  by (simp add: loadModel_onLoad_def Vector3_def characterZ_def)

text \<open>
  C9. The load of the character puts it at z = 0. The gravity and support update, the
  horizontal moves, a whole frame, the start of a jump, the facing update and the two key
  handlers each leave \<^verbatim>\<open>position.z\<close> as it was, whether they return or raise. So after
  any sequence of key events, frames and clip loads that follows the load of the character,
  \<^verbatim>\<open>position.z\<close> is 0.
\<close>

theorem z_is_pinned:
  "characterZ (loadModel_onLoad fbx s) = Some 0 \<and>
   characterZ (state_of (applyGravity setFromObject delta s)) = characterZ s \<and>
   characterZ (state_of (moveLeft setFromObject delta s)) = characterZ s \<and>
   characterZ (state_of (moveRight setFromObject delta s)) = characterZ s \<and>
   characterZ (state_of (animate setFromObject delta s)) = characterZ s \<and>
   characterZ (state_of (initiateJump s)) = characterZ s \<and>
   characterZ (updateCharacterDirection s) = characterZ s \<and>
   characterZ (state_of (onKeyDown key s)) = characterZ s \<and>
   characterZ (state_of (onKeyUp key s)) = characterZ s \<and>
   characterZ (run setFromObject evs (loadModel_onLoad fbx s)) = Some 0"
  by (simp add: loadModel_z applyGravity_z moveLeft_z moveRight_z animate_z initiateJump_z
      updateCharacterDirection_z onKeyDown_z onKeyUp_z run_z)


text \<open>C9 on a run of seven events after the load of a character.\<close>

theorem z_is_pinned_witness:
  "characterZ (run boxAt [KeyDown ''ArrowRight'', Frame (1 / 16), KeyDown ''ArrowUp'', Frame (1 / 16),
                           IdleLoaded, KeyUp ''ArrowRight'', Frame 1]
                 (loadModel_onLoad (figure 7 3) (initial groundPlane sceneObstacles))) = Some 0"
  using z_is_pinned by blast

section \<open>Horizontal movement\<close>

lemma collisionLoop_ex:
  "collisionLoop sfo b obs \<longleftrightarrow> (\<exists>obstacle \<in> set obs. intersectsBox b (sfo obstacle))"
  by (induction obs) auto

lemma checkHorizontalCollision_loaded:
  "character s = Some c \<Longrightarrow>
   checkHorizontalCollision sfo nextX s \<longleftrightarrow>
     (\<exists>obstacle \<in> set (obstacles s).
        intersectsBox (translate (sfo c) (Vector3 (fsub nextX (x_of (position c))) 0 0)) (sfo obstacle))"
  by (simp add: checkHorizontalCollision_def collisionLoop_ex)

lemma setAction_loaded: "\<not> raised (setAction (Some a) s)"
  by (simp add: setAction_Some)

lemma switchAnimation_loaded:
  "idleAction s \<noteq> None \<Longrightarrow> runAction s \<noteq> None \<Longrightarrow> \<not> raised (switchAnimation s)"
  by (auto simp: switchAnimation_def setAction_loaded)

text \<open>What the gravity step leaves alone.\<close>

lemma applyGravity_frame:
  assumes "character s = Some c"
  shows "\<exists>c1. character (state_of (applyGravity sfo d s)) = Some c1 \<and>
              x_of (position c1) = x_of (position c) \<and>
              keysPressed (state_of (applyGravity sfo d s)) = keysPressed s \<and>
              obstacles (state_of (applyGravity sfo d s)) = obstacles s"
proof -
  obtain b c1 where f: "findSupport sfo d s c = (b, c1)"
    by (cases "findSupport sfo d s c")
  have x: "x_of (position c1) = x_of (position c)"
    using f findSupport_eq [of sfo d s c] by (auto simp: Let_def)
  show ?thesis
  proof (cases b)
    case False
    with assms f x show ?thesis by (simp add: applyGravity_def Let_def)
  next
    case True
    with assms f x
      switchAnimation_frame [of "s\<lparr>character := Some c1, isJumping := False, velocity := 0\<rparr>"]
    show ?thesis by (simp add: applyGravity_def same_physics_def)
  qed
qed

lemma applyGravity_loaded:
  assumes "idleAction s \<noteq> None" and "runAction s \<noteq> None"
  shows "\<not> raised (applyGravity sfo d s)"
  using assms
  by (auto simp: applyGravity_def Let_def switchAnimation_loaded split: option.splits prod.splits)


lemma moves_one_key:
  assumes c: "character s1 = Some c"
    and one: "keysPressed s1 ''ArrowLeft'' \<noteq> keysPressed s1 ''ArrowRight''"
  shows "and_then (moveLeft sfo d s1) (moveRight sfo d) =
           (let nextX = (if keysPressed s1 ''ArrowLeft'' then fsub (x_of (position c)) (fmul 5 d)
                         else fadd (x_of (position c)) (fmul 5 d))
            in if checkHorizontalCollision sfo nextX s1 then Done s1
               else Done (s1\<lparr>character := Some (setX nextX c)\<rparr>))"
  using assms by (auto simp: moveLeft_def moveRight_def Let_def)

text \<open>The horizontal step and the whole frame as equations between states.\<close>

lemma step_equations:
  "(character s = Some c \<and> keysPressed s ''ArrowLeft'' \<noteq> keysPressed s ''ArrowRight'' \<longrightarrow>
      and_then (moveLeft setFromObject delta s) (moveRight setFromObject delta) =
        (let nextX = (if keysPressed s ''ArrowLeft'' then fsub (x_of (position c)) (fmul 5 delta)
                      else fadd (x_of (position c)) (fmul 5 delta));
             blocked = (\<exists>obstacle \<in> set (obstacles s).
                          intersectsBox
                            (translate (setFromObject c) (Vector3 (fsub nextX (x_of (position c))) 0 0))
                            (setFromObject obstacle))
         in Done (if blocked then s else s\<lparr>character := Some (setX nextX c)\<rparr>))) \<and>
   (animate setFromObject delta s = Done s' \<and> keysPressed s ''ArrowLeft'' \<noteq> keysPressed s ''ArrowRight'' \<longrightarrow>
      (\<exists>c0 s1 c.
         character s = Some c0 \<and> applyGravity setFromObject delta s = Done s1 \<and>
         character s1 = Some c \<and> x_of (position c) = x_of (position c0) \<and>
         (let nextX = (if keysPressed s ''ArrowLeft'' then fsub (x_of (position c)) (fmul 5 delta)
                       else fadd (x_of (position c)) (fmul 5 delta));
              blocked = (\<exists>obstacle \<in> set (obstacles s).
                           intersectsBox
                             (translate (setFromObject c) (Vector3 (fsub nextX (x_of (position c))) 0 0))
                             (setFromObject obstacle))
          in s' = (if blocked then s1 else s1\<lparr>character := Some (setX nextX c)\<rparr>)))) \<and>
   (character s \<noteq> None \<and> idleAction s \<noteq> None \<and> runAction s \<noteq> None \<longrightarrow>
      \<not> raised (animate setFromObject delta s)) \<and>
   checkHorizontalCollision setFromObject nextX (s\<lparr>ground := g\<rparr>) = checkHorizontalCollision setFromObject nextX s"
proof (intro conjI impI)
  assume "character s = Some c \<and> keysPressed s ''ArrowLeft'' \<noteq> keysPressed s ''ArrowRight''"
  then show "and_then (moveLeft setFromObject delta s) (moveRight setFromObject delta) =
        (let nextX = (if keysPressed s ''ArrowLeft'' then fsub (x_of (position c)) (fmul 5 delta)
                      else fadd (x_of (position c)) (fmul 5 delta));
             blocked = (\<exists>obstacle \<in> set (obstacles s).
                          intersectsBox
                            (translate (setFromObject c) (Vector3 (fsub nextX (x_of (position c))) 0 0))
                            (setFromObject obstacle))
         in Done (if blocked then s else s\<lparr>character := Some (setX nextX c)\<rparr>))"
    by (simp add: moves_one_key checkHorizontalCollision_loaded Let_def)
next
  assume a: "animate setFromObject delta s = Done s' \<and> keysPressed s ''ArrowLeft'' \<noteq> keysPressed s ''ArrowRight''"
  then obtain s1 where s1: "applyGravity setFromObject delta s = Done s1"
    and m: "and_then (moveLeft setFromObject delta s1) (moveRight setFromObject delta) = Done s'"
    by (cases "applyGravity setFromObject delta s") (auto simp: animate_def)
  have "character s \<noteq> None"
  proof
    assume n: "character s = None"
    with s1 have "s1 = s" by (simp add: applyGravity_def)
    with n m a show False by (auto simp: moveLeft_def moveRight_def split: if_splits)
  qed
  then obtain c0 where c0: "character s = Some c0" by auto
  from applyGravity_frame [OF c0, of setFromObject delta] s1
  obtain c where c: "character s1 = Some c" "x_of (position c) = x_of (position c0)"
    and k: "keysPressed s1 = keysPressed s" and ob: "obstacles s1 = obstacles s"
    by auto
  have one: "keysPressed s1 ''ArrowLeft'' \<noteq> keysPressed s1 ''ArrowRight''"
    using a k by simp
  show "\<exists>c0 s1 c.
         character s = Some c0 \<and> applyGravity setFromObject delta s = Done s1 \<and>
         character s1 = Some c \<and> x_of (position c) = x_of (position c0) \<and>
         (let nextX = (if keysPressed s ''ArrowLeft'' then fsub (x_of (position c)) (fmul 5 delta)
                       else fadd (x_of (position c)) (fmul 5 delta));
              blocked = (\<exists>obstacle \<in> set (obstacles s).
                           intersectsBox
                             (translate (setFromObject c) (Vector3 (fsub nextX (x_of (position c))) 0 0))
                             (setFromObject obstacle))
          in s' = (if blocked then s1 else s1\<lparr>character := Some (setX nextX c)\<rparr>))"
    using c0 s1 c m
    unfolding moves_one_key [OF c(1) one] checkHorizontalCollision_loaded [OF c(1)] k ob Let_def
    by (intro exI [of _ c0] exI [of _ s1] exI [of _ c]) (auto split: if_splits)
next
  assume l: "character s \<noteq> None \<and> idleAction s \<noteq> None \<and> runAction s \<noteq> None"
  then obtain c0 where c0: "character s = Some c0" by auto
  from l have g: "\<not> raised (applyGravity setFromObject delta s)"
    by (simp add: applyGravity_loaded)
  then obtain s1 where s1: "applyGravity setFromObject delta s = Done s1"
    by (cases "applyGravity setFromObject delta s") auto
  from applyGravity_frame [OF c0, of setFromObject delta] s1
  obtain c where c: "character s1 = Some c" by auto
  show "\<not> raised (animate setFromObject delta s)"
    using s1 c by (auto simp: animate_def moveLeft_def moveRight_def)
next
  show "checkHorizontalCollision setFromObject nextX (s\<lparr>ground := g\<rparr>) = checkHorizontalCollision setFromObject nextX s"
    by (cases "character s") (simp_all add: checkHorizontalCollision_def)
qed

lemma running_gravity: "applyGravity boxAt (1 / 16) running = Done running"
  "applyGravity boxAt (1 / 4) running = Done running"
  by (simp_all add: running_def sceneObstacles_def state_eval scene_eval fl_eval)

lemma running_fields:
  "character running = Some (figure 3 0)" "keysPressed running ''ArrowRight''"
  "\<not> keysPressed running ''ArrowLeft''" "obstacles running = sceneObstacles"
  by (simp_all add: running_def loaded_def)

lemma running_frames:
  "animate boxAt (1 / 16) running = Done (running\<lparr>character := Some (setX (53 / 16) (figure 3 0))\<rparr>)"
  "animate boxAt (1 / 4) running = Done running"
  by (simp_all add: animate_def running_gravity moveLeft_def moveRight_def running_fields
        checkHorizontalCollision_def sceneObstacles_def scene_eval fl_eval)

lemma running_moves:
  "fadd 3 (fmul 5 (1 / 16)) = 53 / 16"
  "\<not> checkHorizontalCollision boxAt (fadd 3 (fmul 5 (1 / 16))) running"
  "checkHorizontalCollision boxAt (fadd 3 (fmul 5 (1 / 4))) running"
  by (simp_all add: checkHorizontalCollision_def running_fields sceneObstacles_def scene_eval fl_eval)

lemma setX_fields [simp]:
  "rotation (setX a c) = rotation c" "scale (setX a c) = scale c" "geometry (setX a c) = geometry c"
  by (simp_all add: setX_def)

text \<open>
  C7, as the code has it. With a loaded character and exactly one of ArrowLeft and
  ArrowRight held, the horizontal step of a frame (lines 257 to 267) returns. When the
  character's box, moved along X by \<^verbatim>\<open>nextX - position.x\<close>, intersects the box of some
  obstacle, nothing is changed. Otherwise \<^verbatim>\<open>position.x\<close> becomes \<^verbatim>\<open>nextX\<close>, which is
  \<^verbatim>\<open>position.x - 5 * delta\<close> (left) or \<^verbatim>\<open>position.x + 5 * delta\<close> (right) in binary64, the
  product rounded and then the difference or sum rounded, and nothing else is changed. For
  a whole frame that returns, the step starts from the state the gravity step returned,
  in which \<^verbatim>\<open>position.x\<close> is what it was before the frame. A frame returns whenever the
  character, the idle clip and the run clip have loaded. The query
  \<^verbatim>\<open>checkHorizontalCollision\<close> does not depend on the ground.
\<close>

theorem horizontal_step:
  "(character s = Some c \<and> keysPressed s ''ArrowLeft'' \<noteq> keysPressed s ''ArrowRight'' \<longrightarrow>
      (let x = x_of (position c);
           nextX = (if keysPressed s ''ArrowLeft'' then fsub x (fmul 5 delta) else fadd x (fmul 5 delta));
           blocked = (\<exists>obstacle \<in> set (obstacles s).
                        intersectsBox (translate (setFromObject c) (Vector3 (fsub nextX x) 0 0))
                          (setFromObject obstacle))
       in \<exists>s'. and_then (moveLeft setFromObject delta s) (moveRight setFromObject delta) = Done s' \<and>
             (blocked \<longrightarrow> s' = s) \<and>
             (\<not> blocked \<longrightarrow>
                (\<exists>c'. s' = s\<lparr>character := Some c'\<rparr> \<and> x_of (position c') = nextX \<and>
                      y_of (position c') = y_of (position c) \<and> z_of (position c') = z_of (position c) \<and>
                      rotation c' = rotation c \<and> scale c' = scale c \<and> geometry c' = geometry c)))) \<and>
   (animate setFromObject delta s = Done s' \<and> keysPressed s ''ArrowLeft'' \<noteq> keysPressed s ''ArrowRight'' \<longrightarrow>
      (\<exists>c0 s1 c1.
         character s = Some c0 \<and> applyGravity setFromObject delta s = Done s1 \<and>
         character s1 = Some c1 \<and> x_of (position c1) = x_of (position c0) \<and>
         (let x = x_of (position c0);
              nextX = (if keysPressed s ''ArrowLeft'' then fsub x (fmul 5 delta) else fadd x (fmul 5 delta));
              blocked = (\<exists>obstacle \<in> set (obstacles s).
                           intersectsBox (translate (setFromObject c1) (Vector3 (fsub nextX x) 0 0))
                             (setFromObject obstacle))
          in (blocked \<longrightarrow> s' = s1) \<and>
             (\<not> blocked \<longrightarrow>
                (\<exists>c'. s' = s1\<lparr>character := Some c'\<rparr> \<and> x_of (position c') = nextX \<and>
                      y_of (position c') = y_of (position c1) \<and> z_of (position c') = z_of (position c1) \<and>
                      rotation c' = rotation c1 \<and> scale c' = scale c1 \<and> geometry c' = geometry c1))))) \<and>
   (character s \<noteq> None \<and> idleAction s \<noteq> None \<and> runAction s \<noteq> None \<longrightarrow>
      \<not> raised (animate setFromObject delta s)) \<and>
   checkHorizontalCollision setFromObject nextX (s\<lparr>ground := g\<rparr>) = checkHorizontalCollision setFromObject nextX s"
proof (intro conjI impI)
  assume a: "character s = Some c \<and> keysPressed s ''ArrowLeft'' \<noteq> keysPressed s ''ArrowRight''"
  define x where "x = x_of (position c)"
  define n where "n = (if keysPressed s ''ArrowLeft'' then fsub x (fmul 5 delta) else fadd x (fmul 5 delta))"
  define b where "b \<longleftrightarrow> (\<exists>obstacle \<in> set (obstacles s).
      intersectsBox (translate (setFromObject c) (Vector3 (fsub n x) 0 0)) (setFromObject obstacle))"
  from a have e: "and_then (moveLeft setFromObject delta s) (moveRight setFromObject delta) =
      Done (if b then s else s\<lparr>character := Some (setX n c)\<rparr>)"
    by (auto simp add: moves_one_key checkHorizontalCollision_loaded Let_def b_def n_def x_def)
  have "\<exists>s'. and_then (moveLeft setFromObject delta s) (moveRight setFromObject delta) = Done s' \<and>
             (b \<longrightarrow> s' = s) \<and>
             (\<not> b \<longrightarrow>
                (\<exists>c'. s' = s\<lparr>character := Some c'\<rparr> \<and> x_of (position c') = n \<and>
                      y_of (position c') = y_of (position c) \<and> z_of (position c') = z_of (position c) \<and>
                      rotation c' = rotation c \<and> scale c' = scale c \<and> geometry c' = geometry c))"
  proof (cases b)
    case True
    with e show ?thesis by simp
  next
    case False
    with e have "and_then (moveLeft setFromObject delta s) (moveRight setFromObject delta)
        = Done (s\<lparr>character := Some (setX n c)\<rparr>)" by simp
    with False show ?thesis
      by (intro exI [of _ "s\<lparr>character := Some (setX n c)\<rparr>"] conjI impI exI [of _ "setX n c"]) simp_all
  qed
  then show "let x = x_of (position c);
           nextX = (if keysPressed s ''ArrowLeft'' then fsub x (fmul 5 delta) else fadd x (fmul 5 delta));
           blocked = (\<exists>obstacle \<in> set (obstacles s).
                        intersectsBox (translate (setFromObject c) (Vector3 (fsub nextX x) 0 0))
                          (setFromObject obstacle))
       in \<exists>s'. and_then (moveLeft setFromObject delta s) (moveRight setFromObject delta) = Done s' \<and>
             (blocked \<longrightarrow> s' = s) \<and>
             (\<not> blocked \<longrightarrow>
                (\<exists>c'. s' = s\<lparr>character := Some c'\<rparr> \<and> x_of (position c') = nextX \<and>
                      y_of (position c') = y_of (position c) \<and> z_of (position c') = z_of (position c) \<and>
                      rotation c' = rotation c \<and> scale c' = scale c \<and> geometry c' = geometry c))"
    unfolding Let_def b_def n_def x_def .
next
  assume a: "animate setFromObject delta s = Done s' \<and> keysPressed s ''ArrowLeft'' \<noteq> keysPressed s ''ArrowRight''"
  from step_equations [of s _ setFromObject delta s' nextX g, THEN conjunct2, THEN conjunct1, rule_format, OF a]
  obtain c0 s1 c1 where h: "character s = Some c0" "applyGravity setFromObject delta s = Done s1"
    "character s1 = Some c1" "x_of (position c1) = x_of (position c0)"
    and r: "(let nextX = (if keysPressed s ''ArrowLeft'' then fsub (x_of (position c1)) (fmul 5 delta)
                       else fadd (x_of (position c1)) (fmul 5 delta));
              blocked = (\<exists>obstacle \<in> set (obstacles s).
                           intersectsBox
                             (translate (setFromObject c1) (Vector3 (fsub nextX (x_of (position c1))) 0 0))
                             (setFromObject obstacle))
          in s' = (if blocked then s1 else s1\<lparr>character := Some (setX nextX c1)\<rparr>))"
    by blast
  define x where "x = x_of (position c0)"
  define n where "n = (if keysPressed s ''ArrowLeft'' then fsub x (fmul 5 delta) else fadd x (fmul 5 delta))"
  define b where "b \<longleftrightarrow> (\<exists>obstacle \<in> set (obstacles s).
      intersectsBox (translate (setFromObject c1) (Vector3 (fsub n x) 0 0)) (setFromObject obstacle))"
  from r [unfolded h(4)] have e: "s' = (if b then s1 else s1\<lparr>character := Some (setX n c1)\<rparr>)"
    unfolding Let_def b_def n_def x_def .
  have "(b \<longrightarrow> s' = s1) \<and>
        (\<not> b \<longrightarrow>
           (\<exists>c'. s' = s1\<lparr>character := Some c'\<rparr> \<and> x_of (position c') = n \<and>
                 y_of (position c') = y_of (position c1) \<and> z_of (position c') = z_of (position c1) \<and>
                 rotation c' = rotation c1 \<and> scale c' = scale c1 \<and> geometry c' = geometry c1))"
  proof (cases b)
    case True
    with e show ?thesis by simp
  next
    case False
    with e show ?thesis
      by (intro conjI impI exI [of _ "setX n c1"]) simp_all
  qed
  then have "let x = x_of (position c0);
              nextX = (if keysPressed s ''ArrowLeft'' then fsub x (fmul 5 delta) else fadd x (fmul 5 delta));
              blocked = (\<exists>obstacle \<in> set (obstacles s).
                           intersectsBox (translate (setFromObject c1) (Vector3 (fsub nextX x) 0 0))
                             (setFromObject obstacle))
          in (blocked \<longrightarrow> s' = s1) \<and>
             (\<not> blocked \<longrightarrow>
                (\<exists>c'. s' = s1\<lparr>character := Some c'\<rparr> \<and> x_of (position c') = nextX \<and>
                      y_of (position c') = y_of (position c1) \<and> z_of (position c') = z_of (position c1) \<and>
                      rotation c' = rotation c1 \<and> scale c' = scale c1 \<and> geometry c' = geometry c1))"
    unfolding Let_def b_def n_def x_def .
  with h show "\<exists>c0 s1 c1.
         character s = Some c0 \<and> applyGravity setFromObject delta s = Done s1 \<and>
         character s1 = Some c1 \<and> x_of (position c1) = x_of (position c0) \<and>
         (let x = x_of (position c0);
              nextX = (if keysPressed s ''ArrowLeft'' then fsub x (fmul 5 delta) else fadd x (fmul 5 delta));
              blocked = (\<exists>obstacle \<in> set (obstacles s).
                           intersectsBox (translate (setFromObject c1) (Vector3 (fsub nextX x) 0 0))
                             (setFromObject obstacle))
          in (blocked \<longrightarrow> s' = s1) \<and>
             (\<not> blocked \<longrightarrow>
                (\<exists>c'. s' = s1\<lparr>character := Some c'\<rparr> \<and> x_of (position c') = nextX \<and>
                      y_of (position c') = y_of (position c1) \<and> z_of (position c') = z_of (position c1) \<and>
                      rotation c' = rotation c1 \<and> scale c' = scale c1 \<and> geometry c' = geometry c1)))"
    by blast
next
  assume "character s \<noteq> None \<and> idleAction s \<noteq> None \<and> runAction s \<noteq> None"
  with step_equations [of s _ setFromObject delta s' nextX g]
  show "\<not> raised (animate setFromObject delta s)" by blast
next
  show "checkHorizontalCollision setFromObject nextX (s\<lparr>ground := g\<rparr>) = checkHorizontalCollision setFromObject nextX s"
    by (cases "character s") (simp_all add: checkHorizontalCollision_def)
qed

text \<open>C7 at the running character: a frame of 1/16 second moves it from x = 3 to
  x = 53/16; a frame of 1/4 second would put its box into the obstacle at x = 5 and leaves
  it where it is.\<close>

theorem horizontal_step_witness:
  "character running = Some (figure 3 0) \<and> x_of (position (figure 3 0)) = 3 \<and>
   keysPressed running ''ArrowLeft'' \<noteq> keysPressed running ''ArrowRight'' \<and>
   \<not> checkHorizontalCollision boxAt (fadd 3 (fmul 5 (1 / 16))) running \<and>
   animate boxAt (1 / 16) running = Done (running\<lparr>character := Some (setX (53 / 16) (figure 3 0))\<rparr>) \<and>
   map_option (\<lambda>c. x_of (position c)) (character (state_of (animate boxAt (1 / 16) running))) = Some (53 / 16) \<and>
   checkHorizontalCollision boxAt (fadd 3 (fmul 5 (1 / 4))) running \<and>
   animate boxAt (1 / 4) running = Done running"
proof -
  have h: "animate boxAt (1 / 4) running = Done running \<and>
           keysPressed running ''ArrowLeft'' \<noteq> keysPressed running ''ArrowRight''"
    by (simp add: running_frames running_fields)
  note t = horizontal_step [of running "figure 3 0" "1 / 4" boxAt running 0 groundPlane,
      THEN conjunct2, THEN conjunct1, rule_format, OF h]
  have x: "x_of (position (figure 3 0)) = 3"
    by (simp add: figure_def Vector3_def)
  have m: "map_option (\<lambda>c. x_of (position c)) (character (state_of (animate boxAt (1 / 16) running))) = Some (53 / 16)"
    by (simp add: running_frames)
  show ?thesis
    using t h x m running_frames(1) running_fields(1) running_moves by blast
qed

text \<open>A frame of 16 milliseconds at the running character.\<close>

lemma frame16ms_value: "frame16ms = 1152921504606847 / 2 ^ 56"
  by (simp add: frame16ms_def fl_eval)

lemma step_16ms:
  "fmul 5 frame16ms = 5764607523034235 / 2 ^ 56"
  "fadd 3 (fmul 5 frame16ms) = 1733885856537641 / 2 ^ 49"
  by (simp_all add: frame16ms_value fl_eval)

lemma running_gravity_16ms: "applyGravity boxAt frame16ms running = Done running"
  by (simp add: frame16ms_value running_def sceneObstacles_def state_eval scene_eval fl_eval)


lemma running_free_16ms:
  "\<not> checkHorizontalCollision boxAt (fadd 3 (fmul 5 frame16ms)) running"
  unfolding step_16ms(2)
  by (simp add: checkHorizontalCollision_def running_fields sceneObstacles_def scene_eval fl_eval)

lemma running_frame_16ms:
  "animate boxAt frame16ms running
     = Done (running\<lparr>character := Some (setX (1733885856537641 / 2 ^ 49) (figure 3 0))\<rparr>)"
proof -
  have x: "x_of (position (figure 3 0)) = 3"
    by (simp add: figure_def Vector3_def)
  have "moveRight boxAt frame16ms running
      = Done (running\<lparr>character := Some (setX (fadd 3 (fmul 5 frame16ms)) (figure 3 0))\<rparr>)"
    using running_free_16ms by (simp add: moveRight_def running_fields x)
  then have "moveRight boxAt frame16ms running
      = Done (running\<lparr>character := Some (setX (1733885856537641 / 2 ^ 49) (figure 3 0))\<rparr>)"
    unfolding step_16ms(2) .
  then show ?thesis
    by (simp add: animate_def running_gravity_16ms moveLeft_def running_fields)
qed

text \<open>
  C7 as the specification states it fails. The running character at x = 3, not blocked,
  after a frame of 0.016 seconds: \<^verbatim>\<open>position.x\<close> is 1733885856537641 / 2^49, the binary64
  value of 3.08. The change is not 5 * 0.016, neither as a real number nor as the binary64
  product, and \<^verbatim>\<open>position.x - 3\<close> evaluated by the program, 0.08000000000000007, is not the
  program's \<^verbatim>\<open>5 * delta\<close>, 0.08, either.
\<close>

theorem exact_step_counterexample:
  "\<not> checkHorizontalCollision boxAt (fadd 3 (fmul 5 frame16ms)) running \<and>
   map_option (\<lambda>c. x_of (position c)) (character running) = Some 3 \<and>
   map_option (\<lambda>c. x_of (position c)) (character (state_of (animate boxAt frame16ms running)))
     = Some (1733885856537641 / 2 ^ 49) \<and>
   1733885856537641 / 2 ^ 49 - 3 \<noteq> 5 * frame16ms \<and>
   1733885856537641 / 2 ^ 49 - 3 \<noteq> fmul 5 frame16ms \<and>
   fsub (1733885856537641 / 2 ^ 49) 3 \<noteq> fmul 5 frame16ms"
proof -
  have a: "map_option (\<lambda>c. x_of (position c)) (character running) = Some 3"
    by (simp add: running_fields figure_def Vector3_def)
  have b: "map_option (\<lambda>c. x_of (position c)) (character (state_of (animate boxAt frame16ms running)))
     = Some (1733885856537641 / 2 ^ 49)"
    by (simp add: running_frame_16ms)
  have c: "1733885856537641 / 2 ^ 49 - 3 \<noteq> 5 * frame16ms"
          "1733885856537641 / 2 ^ 49 - 3 \<noteq> fmul 5 frame16ms"
          "fsub (1733885856537641 / 2 ^ 49) 3 \<noteq> fmul 5 frame16ms"
    by (simp_all add: frame16ms_value fl_eval)
  show ?thesis
    using a b c running_free_16ms by blast
qed

text \<open>A frame that does not reach the horizontal step: while the run clip has not
  loaded, the gravity step of a character on the ground with an arrow key held raises in
  \<^verbatim>\<open>setAction\<close>, and the character, not blocked, stays where it is.\<close>

lemma waiting_fields:
  "character waitingForRun = Some (figure 3 0)" "keysPressed waitingForRun ''ArrowRight''"
  "\<not> keysPressed waitingForRun ''ArrowLeft''" "obstacles waitingForRun = sceneObstacles"
  "runAction waitingForRun = None" "currentAction waitingForRun = Some IdleAction"
  by (simp_all add: waitingForRun_def loaded_def)

lemma waiting_support: "findSupport boxAt (1 / 16) waitingForRun (figure 3 0) = (True, figure 3 0)"
  by (simp add: waitingForRun_def sceneObstacles_def state_eval scene_eval fl_eval)

lemma waiting_gravity:
  "applyGravity boxAt (1 / 16) waitingForRun = Raised TypeError (stop IdleAction waitingForRun)"
  apply (simp add: applyGravity_def waiting_fields waiting_support switchAnimation_def setAction_None)
  apply (simp add: waitingForRun_def loaded_def stop_def)
  done

lemma waiting_frame:
  "\<not> checkHorizontalCollision boxAt (fadd 3 (fmul 5 (1 / 16))) waitingForRun"
  "animate boxAt (1 / 16) waitingForRun = Raised TypeError (stop IdleAction waitingForRun)"
  "map_option (\<lambda>c. x_of (position c)) (character (stop IdleAction waitingForRun)) = Some 3"
    apply (simp add: checkHorizontalCollision_def waiting_fields sceneObstacles_def scene_eval fl_eval)
   apply (simp add: animate_def waiting_gravity)
  apply (simp add: stop_def waiting_fields figure_def Vector3_def)
  done


section \<open>Clips that load out of order\<close>

lemma justLoaded_fields:
  "character justLoaded = Some (setRotationY (Math_PI / 2)
      ((figure 0 0)\<lparr>scale := Vector3 (fl (1 / 100)) (fl (1 / 100)) (fl (1 / 100)), position := Vector3 0 0 0\<rparr>))"
  "mixer justLoaded" "currentAction justLoaded = None" "calls justLoaded = []"
  "\<not> isJumping justLoaded" "idleAction justLoaded = None" "runAction justLoaded = None"
  "jumpAction justLoaded = None" "obstacles justLoaded = sceneObstacles" "ground justLoaded = groundPlane"
  "keysPressed justLoaded = (\<lambda>k. False)" "velocity justLoaded = 0"
  by (simp_all add: justLoaded_def loadModel_onLoad_def initial_def half_pi_exact)

lemmas handler_eval =
  onKeyDown_def onKeyUp_def switchAnimation_def initiateJump_def setAction_def
  updateCharacterDirection_def idle_onLoad_def run_onLoad_def jump_onLoad_def play_def stop_def
  playing_def mixer_step_def Let_def

lemma race_short:
  "calls (run boxAt [RunLoaded, KeyDown ''ArrowRight'', IdleLoaded] justLoaded)
     = [Play RunAction, Play IdleAction]"
  "currentAction (run boxAt [RunLoaded, KeyDown ''ArrowRight'', IdleLoaded] justLoaded) = Some IdleAction"
  "\<not> raised (onKeyDown ''ArrowRight'' (run boxAt [RunLoaded] justLoaded))"
  by (simp_all add: justLoaded_fields handler_eval)


lemma race_long:
  "calls (run boxAt [JumpLoaded, RunLoaded, KeyDown ''ArrowRight'', KeyDown ''ArrowUp'', IdleLoaded,
                     Frame (1 / 64)] justLoaded)
     = [Play RunAction, Stop RunAction, Play JumpAction, Play IdleAction, Stop IdleAction, Play RunAction]"
  "currentAction (run boxAt [JumpLoaded, RunLoaded, KeyDown ''ArrowRight'', KeyDown ''ArrowUp'', IdleLoaded,
                             Frame (1 / 64)] justLoaded) = Some RunAction"
  "\<not> raised (onKeyDown ''ArrowRight'' (run boxAt [JumpLoaded, RunLoaded] justLoaded))"
  "\<not> raised (onKeyDown ''ArrowUp'' (run boxAt [JumpLoaded, RunLoaded, KeyDown ''ArrowRight''] justLoaded))"
  "\<not> raised (animate boxAt (1 / 64)
               (run boxAt [JumpLoaded, RunLoaded, KeyDown ''ArrowRight'', KeyDown ''ArrowUp'', IdleLoaded] justLoaded))"
  by (simp_all add: justLoaded_fields handler_eval applyGravity_def findSupport_def groundCheck_def
        animate_def moveLeft_def moveRight_def checkHorizontalCollision_def sceneObstacles_def
        scene_eval setRotationY_def jumpSpeed_def Math_PI_def fl_eval)

text \<open>
  C8 fails on the code. The run clip loads before the idle clip and ArrowRight is pressed
  in between: \<^verbatim>\<open>setAction\<close> plays the run clip, and then the callback of the idle clip's
  load (lines 94 to 96) plays the idle clip without stopping the run clip, so that two
  clips are scheduled. When the jump clip has loaded too and ArrowUp is pressed before the
  idle clip loads, the jump clip stays scheduled beside the run clip after the next frame,
  with all clips loaded and no handler having raised.
\<close>

theorem idle_load_breaks_exclusivity:
  "calls (run boxAt [RunLoaded, KeyDown ''ArrowRight'', IdleLoaded] justLoaded)
     = [Play RunAction, Play IdleAction] \<and>
   playing (calls (run boxAt [RunLoaded, KeyDown ''ArrowRight'', IdleLoaded] justLoaded))
     = {IdleAction, RunAction} \<and>
   currentAction (run boxAt [RunLoaded, KeyDown ''ArrowRight'', IdleLoaded] justLoaded) = Some IdleAction \<and>
   \<not> raised (onKeyDown ''ArrowRight'' (run boxAt [RunLoaded] justLoaded)) \<and>
   calls (run boxAt [JumpLoaded, RunLoaded, KeyDown ''ArrowRight'', KeyDown ''ArrowUp'', IdleLoaded,
                     Frame (1 / 64)] justLoaded)
     = [Play RunAction, Stop RunAction, Play JumpAction, Play IdleAction, Stop IdleAction, Play RunAction] \<and>
   playing (calls (run boxAt [JumpLoaded, RunLoaded, KeyDown ''ArrowRight'', KeyDown ''ArrowUp'', IdleLoaded,
                              Frame (1 / 64)] justLoaded))
     = {RunAction, JumpAction} \<and>
   currentAction (run boxAt [JumpLoaded, RunLoaded, KeyDown ''ArrowRight'', KeyDown ''ArrowUp'', IdleLoaded,
                             Frame (1 / 64)] justLoaded) = Some RunAction \<and>
   \<not> raised (onKeyDown ''ArrowRight'' (run boxAt [JumpLoaded, RunLoaded] justLoaded)) \<and>
   \<not> raised (onKeyDown ''ArrowUp'' (run boxAt [JumpLoaded, RunLoaded, KeyDown ''ArrowRight''] justLoaded)) \<and>
   \<not> raised (animate boxAt (1 / 64)
               (run boxAt [JumpLoaded, RunLoaded, KeyDown ''ArrowRight'', KeyDown ''ArrowUp'', IdleLoaded] justLoaded))"
proof -
  have a: "playing (calls (run boxAt [RunLoaded, KeyDown ''ArrowRight'', IdleLoaded] justLoaded))
     = {IdleAction, RunAction}"
    unfolding race_short(1) by (simp add: playing_def mixer_step_def)
  have b: "playing (calls (run boxAt [JumpLoaded, RunLoaded, KeyDown ''ArrowRight'', KeyDown ''ArrowUp'', IdleLoaded,
                              Frame (1 / 64)] justLoaded))
     = {RunAction, JumpAction}"
    unfolding race_long(1) by (simp add: playing_def mixer_step_def)
  show ?thesis
    using a b race_short race_long by blast
qed

end
